theory Spec2Isabelle
  imports Main
begin

section \<open>The Caddy admin API client: wire types (internal/clients/caddy/client.go)\<close>

text \<open>
  Go slices are lists (a nil slice and an empty slice both have length 0 and are both
  left out by \<open>omitempty\<close>, so both are \<open>[]\<close>), Go maps are partial functions,
  pointers to structs are options, Go's \<open>int\<close> is \<open>int\<close> (the code only copies
  such values).
\<close>

record MatchSet =
  MatchSet_Host :: "string list"
  MatchSet_Path :: "string list"
  MatchSet_Method :: "string list"
  MatchSet_Header :: "string \<rightharpoonup> string list"

record Upstream =
  Upstream_Dial :: string
  Upstream_MaxRequests :: int

record SelectionPolicy =
  SelectionPolicy_Policy :: string

record LoadBalancing =
  LoadBalancing_SelectionPolicy :: "SelectionPolicy option"
  LoadBalancing_TryDuration :: string
  LoadBalancing_TryInterval :: string

record HeaderOps =
  HeaderOps_Set :: "string \<rightharpoonup> string list"
  HeaderOps_Add :: "string \<rightharpoonup> string list"
  HeaderOps_Delete :: "string list"

record Headers =
  Headers_Request :: "HeaderOps option"
  Headers_Response :: "HeaderOps option"

record ActiveHealthCheck =
  ActiveHealthCheck_Path :: string
  ActiveHealthCheck_Interval :: string
  ActiveHealthCheck_Timeout :: string

record PassiveHealthCheck =
  PassiveHealthCheck_MaxFails :: int
  PassiveHealthCheck_UnhealthyLatency :: string

record HealthChecks =
  HealthChecks_Active :: "ActiveHealthCheck option"
  HealthChecks_Passive :: "PassiveHealthCheck option"

record TLSConfig =
  TLSConfig_ServerName :: string
  TLSConfig_InsecureSkipVerify :: bool

record Transport =
  Transport_Protocol :: string
  Transport_TLS :: "TLSConfig option"

text \<open>
  \<open>Handler\<close> and \<open>Route\<close> refer to each other (a handler holds subroutes, a subroute
  holds handlers), so they are one recursive datatype with the struct fields as selectors.
\<close>

datatype Handler = Handler
  (Handler_Handler: string)
  (Handler_Routes: "Route list")
  (Handler_Upstreams: "Upstream list")
  (Handler_LoadBalancing: "LoadBalancing option")
  (Handler_Headers: "Headers option")
  (Handler_HealthChecks: "HealthChecks option")
  (Handler_Transport: "Transport option")
and Route = Route
  (Route_Handle: "Handler list")

record ProxyRoute =
  ProxyRoute_Match :: "MatchSet list"
  ProxyRoute_Handle :: "Handler list"
  ProxyRoute_Terminal :: bool

record UpstreamStatus =
  UpstreamStatus_Address :: string
  UpstreamStatus_Healthy :: bool
  UpstreamStatus_NumRequests :: int

section \<open>Go standard library functions used by the code\<close>

text \<open>
  \<open>strings.Join(elems, sep)\<close>: the elements in order with \<open>sep\<close> between
  neighbours; the empty string for no element, the element itself for one.
\<close>

fun Join :: "string list \<Rightarrow> string \<Rightarrow> string" where
  "Join [] sep = ''''"
| "Join [x] sep = x"
| "Join (x # y # ys) sep = x @ sep @ Join (y # ys) sep"

section \<open>Route identity (generateRouteID)\<close>

text \<open>
  The three \<open>if len(...) > 0 { parts = append(parts, ...) }\<close> statements thread the
  local slice \<open>parts\<close>, which starts nil.
\<close>

definition generateRouteID :: "ProxyRoute \<Rightarrow> string" where
  "generateRouteID route =
     (if length (ProxyRoute_Match route) = 0 then ''default''
      else
        let matchSet = ProxyRoute_Match route ! 0;
            parts0 = [];
            parts1 = (if length (MatchSet_Host matchSet) > 0
                      then parts0 @ [''host:'' @ Join (MatchSet_Host matchSet) '','']
                      else parts0);
            parts2 = (if length (MatchSet_Path matchSet) > 0
                      then parts1 @ [''path:'' @ Join (MatchSet_Path matchSet) '','']
                      else parts1);
            parts3 = (if length (MatchSet_Method matchSet) > 0
                      then parts2 @ [''method:'' @ Join (MatchSet_Method matchSet) '','']
                      else parts2)
        in if length parts3 = 0 then ''default'' else Join parts3 ''|'')"

subsection \<open>The identity scheme as the specification words it\<close>

text \<open>
  The specification's wording, kept apart from the code: the labelled fields in the fixed
  order host, path, method; the empty ones dropped; each remaining one rendered as label
  followed by its comma-joined values; the parts joined with a bar; the constant
  \<open>default\<close> when no part remains or when there is no match set at all. Only these
  three fields of the first match set are an input.
\<close>

definition spec_identity_parts :: "string list \<Rightarrow> string list \<Rightarrow> string list \<Rightarrow> string list" where
  "spec_identity_parts hosts paths methods =
     map (\<lambda>(label, vs). label @ Join vs '','')
       (filter (\<lambda>(label, vs). vs \<noteq> [])
          [(''host:'', hosts), (''path:'', paths), (''method:'', methods)])"

definition spec_identity :: "(string list \<times> string list \<times> string list) option \<Rightarrow> string" where
  "spec_identity k =
     (case k of
        None \<Rightarrow> ''default''
      | Some (hosts, paths, methods) \<Rightarrow>
          (if spec_identity_parts hosts paths methods = [] then ''default''
           else Join (spec_identity_parts hosts paths methods) ''|''))"

text \<open>The host, path and method fields of the first match set, if the route has one.\<close>

definition first_match_key :: "ProxyRoute \<Rightarrow> (string list \<times> string list \<times> string list) option" where
  "first_match_key route =
     (case ProxyRoute_Match route of
        [] \<Rightarrow> None
      | m # _ \<Rightarrow> Some (MatchSet_Host m, MatchSet_Path m, MatchSet_Method m))"

section \<open>The managed resource: desired state (apis/config/v1alpha1/proxyroute_types.go)\<close>

text \<open>
  The API package has structs with the same names as the client package; here their
  names and fields carry the prefix \<open>v1\<close>. An optional (pointer) field is an option.
\<close>

record v1_RouteMatch =
  v1_RouteMatch_Host :: "string list"
  v1_RouteMatch_Path :: "string list"
  v1_RouteMatch_Method :: "string list"
  v1_RouteMatch_Headers :: "string \<rightharpoonup> string list"

record v1_Upstream =
  v1_Upstream_Dial :: string
  v1_Upstream_MaxRequests :: "int option"

record v1_LoadBalancing =
  v1_LoadBalancing_Policy :: "string option"
  v1_LoadBalancing_TryDuration :: "string option"
  v1_LoadBalancing_TryInterval :: "string option"

record v1_HeaderManipulation =
  v1_HeaderManipulation_Set :: "string \<rightharpoonup> string list"
  v1_HeaderManipulation_Add :: "string \<rightharpoonup> string list"
  v1_HeaderManipulation_Delete :: "string list"

record v1_HeaderOps =
  v1_HeaderOps_Request :: "v1_HeaderManipulation option"
  v1_HeaderOps_Response :: "v1_HeaderManipulation option"

record v1_ActiveHealthCheck =
  v1_ActiveHealthCheck_Path :: "string option"
  v1_ActiveHealthCheck_Interval :: "string option"
  v1_ActiveHealthCheck_Timeout :: "string option"

record v1_PassiveHealthCheck =
  v1_PassiveHealthCheck_MaxFails :: "int option"
  v1_PassiveHealthCheck_UnhealthyLatency :: "string option"

record v1_HealthChecks =
  v1_HealthChecks_Active :: "v1_ActiveHealthCheck option"
  v1_HealthChecks_Passive :: "v1_PassiveHealthCheck option"

record v1_UpstreamTLS =
  v1_UpstreamTLS_Enabled :: "bool option"
  v1_UpstreamTLS_ServerName :: "string option"
  v1_UpstreamTLS_InsecureSkipVerify :: "bool option"

record ProxyRouteParameters =
  CaddyEndpoint :: string
  ServerName :: "string option"
  Match :: "v1_RouteMatch option"
  Upstreams :: "v1_Upstream list"
  LoadBalancing :: "v1_LoadBalancing option"
  Headers :: "v1_HeaderOps option"
  HealthChecks :: "v1_HealthChecks option"
  TLS :: "v1_UpstreamTLS option"

record v1_UpstreamStatus =
  v1_UpstreamStatus_Address :: string
  v1_UpstreamStatus_Healthy :: bool
  v1_UpstreamStatus_NumRequests :: int

record ProxyRouteObservation =
  RouteID :: string
  UpstreamStatuses :: "v1_UpstreamStatus list"

text \<open>
  The conditions the controller sets, \<open>xpv1.Available()\<close>, \<open>xpv1.Creating()\<close> and
  \<open>xpv1.Deleting()\<close>, are all of type Ready, and \<open>SetConditions\<close> replaces the
  condition of the same type: the resource carries at most one of them.
\<close>

datatype ReadyCondition = Available | Creating | Deleting

text \<open>
  The custom resource. \<open>ExternalName\<close> is the annotation
  \<open>crossplane.io/external-name\<close> read by \<open>meta.GetExternalName\<close> (the empty string
  when the annotation is missing) and written by \<open>meta.SetExternalName\<close>.
\<close>

record v1_ProxyRoute =
  ExternalName :: string
  ForProvider :: ProxyRouteParameters
  AtProvider :: ProxyRouteObservation
  Ready :: "ReadyCondition option"

section \<open>Desired-to-remote translation (convertToProxyRoute)\<close>

text \<open>The body of the loop over the upstreams.\<close>

definition convertUpstream :: "v1_Upstream \<Rightarrow> Upstream" where
  "convertUpstream upstream =
     (let u = \<lparr>Upstream_Dial = v1_Upstream_Dial upstream, Upstream_MaxRequests = 0\<rparr>
      in case v1_Upstream_MaxRequests upstream of
           None \<Rightarrow> u
         | Some n \<Rightarrow> u\<lparr>Upstream_MaxRequests := n\<rparr>)"

definition convertLoadBalancing :: "v1_LoadBalancing \<Rightarrow> LoadBalancing" where
  "convertLoadBalancing lb =
     \<lparr>LoadBalancing_SelectionPolicy =
        (case v1_LoadBalancing_Policy lb of
           None \<Rightarrow> None
         | Some p \<Rightarrow> Some \<lparr>SelectionPolicy_Policy = p\<rparr>),
      LoadBalancing_TryDuration =
        (case v1_LoadBalancing_TryDuration lb of None \<Rightarrow> [] | Some d \<Rightarrow> d),
      LoadBalancing_TryInterval =
        (case v1_LoadBalancing_TryInterval lb of None \<Rightarrow> [] | Some i \<Rightarrow> i)\<rparr>"

definition convertHeaderManipulation :: "v1_HeaderManipulation \<Rightarrow> HeaderOps" where
  "convertHeaderManipulation m =
     \<lparr>HeaderOps_Set = v1_HeaderManipulation_Set m,
      HeaderOps_Add = v1_HeaderManipulation_Add m,
      HeaderOps_Delete = v1_HeaderManipulation_Delete m\<rparr>"

definition convertHeaders :: "v1_HeaderOps \<Rightarrow> Headers" where
  "convertHeaders h =
     \<lparr>Headers_Request =
        (case v1_HeaderOps_Request h of
           None \<Rightarrow> None
         | Some m \<Rightarrow> Some (convertHeaderManipulation m)),
      Headers_Response =
        (case v1_HeaderOps_Response h of
           None \<Rightarrow> None
         | Some m \<Rightarrow> Some (convertHeaderManipulation m))\<rparr>"

definition convertActive :: "v1_ActiveHealthCheck \<Rightarrow> ActiveHealthCheck" where
  "convertActive a =
     \<lparr>ActiveHealthCheck_Path =
        (case v1_ActiveHealthCheck_Path a of None \<Rightarrow> [] | Some p \<Rightarrow> p),
      ActiveHealthCheck_Interval =
        (case v1_ActiveHealthCheck_Interval a of None \<Rightarrow> [] | Some i \<Rightarrow> i),
      ActiveHealthCheck_Timeout =
        (case v1_ActiveHealthCheck_Timeout a of None \<Rightarrow> [] | Some t \<Rightarrow> t)\<rparr>"

definition convertPassive :: "v1_PassiveHealthCheck \<Rightarrow> PassiveHealthCheck" where
  "convertPassive p =
     \<lparr>PassiveHealthCheck_MaxFails =
        (case v1_PassiveHealthCheck_MaxFails p of None \<Rightarrow> 0 | Some n \<Rightarrow> n),
      PassiveHealthCheck_UnhealthyLatency =
        (case v1_PassiveHealthCheck_UnhealthyLatency p of None \<Rightarrow> [] | Some l \<Rightarrow> l)\<rparr>"

definition convertHealthChecks :: "v1_HealthChecks \<Rightarrow> HealthChecks" where
  "convertHealthChecks hc =
     \<lparr>HealthChecks_Active =
        (case v1_HealthChecks_Active hc of None \<Rightarrow> None | Some a \<Rightarrow> Some (convertActive a)),
      HealthChecks_Passive =
        (case v1_HealthChecks_Passive hc of None \<Rightarrow> None | Some p \<Rightarrow> Some (convertPassive p))\<rparr>"

text \<open>
  The TLS block: the condition is
  \<open>TLS != nil && TLS.Enabled != nil && *TLS.Enabled\<close>; only then is there a transport.
\<close>

definition convertTLS :: "v1_UpstreamTLS option \<Rightarrow> Transport option" where
  "convertTLS t =
     (case t of
        None \<Rightarrow> None
      | Some tls \<Rightarrow>
          (case v1_UpstreamTLS_Enabled tls of
             None \<Rightarrow> None
           | Some enabled \<Rightarrow>
               if enabled
               then Some \<lparr>Transport_Protocol = ''http'',
                          Transport_TLS = Some
                            \<lparr>TLSConfig_ServerName =
                               (case v1_UpstreamTLS_ServerName tls of
                                  None \<Rightarrow> [] | Some n \<Rightarrow> n),
                             TLSConfig_InsecureSkipVerify =
                               (case v1_UpstreamTLS_InsecureSkipVerify tls of
                                  None \<Rightarrow> False | Some b \<Rightarrow> b)\<rparr>\<rparr>
               else None))"

text \<open>
  The function itself: the route starts terminal with no match set; the single handler
  \<open>reverse_proxy\<close> has no subroutes and gets its blocks from the parts above.
\<close>

definition convertToProxyRoute :: "v1_ProxyRoute \<Rightarrow> ProxyRoute" where
  "convertToProxyRoute cr =
     (let p = ForProvider cr;
          handler = Handler ''reverse_proxy'' []
            (map convertUpstream (Upstreams p))
            (case LoadBalancing p of None \<Rightarrow> None | Some lb \<Rightarrow> Some (convertLoadBalancing lb))
            (case Headers p of None \<Rightarrow> None | Some h \<Rightarrow> Some (convertHeaders h))
            (case HealthChecks p of None \<Rightarrow> None | Some hc \<Rightarrow> Some (convertHealthChecks hc))
            (convertTLS (TLS p))
      in \<lparr>ProxyRoute_Match =
            (case Match p of
               None \<Rightarrow> []
             | Some m \<Rightarrow>
                 [\<lparr>MatchSet_Host = v1_RouteMatch_Host m,
                   MatchSet_Path = v1_RouteMatch_Path m,
                   MatchSet_Method = v1_RouteMatch_Method m,
                   MatchSet_Header = v1_RouteMatch_Headers m\<rparr>]),
          ProxyRoute_Handle = [handler],
          ProxyRoute_Terminal = True\<rparr>)"

subsection \<open>Which fields reach the wire\<close>

text \<open>
  The wire shape is the JSON encoding of the client structs. Their tags decide whether a
  field is written: with \<open>omitempty\<close> a nil pointer, an empty slice and the integer 0
  are left out. \<open>match\<close> is a slice, \<open>load_balancing\<close>, \<open>headers\<close>,
  \<open>health_checks\<close> and \<open>transport\<close> are pointers, \<open>max_requests\<close> is an
  integer; all six carry \<open>omitempty\<close>.
\<close>

definition wire_has_match :: "ProxyRoute \<Rightarrow> bool" where
  "wire_has_match r = (ProxyRoute_Match r \<noteq> [])"

definition wire_has_load_balancing :: "Handler \<Rightarrow> bool" where
  "wire_has_load_balancing h = (Handler_LoadBalancing h \<noteq> None)"

definition wire_has_headers :: "Handler \<Rightarrow> bool" where
  "wire_has_headers h = (Handler_Headers h \<noteq> None)"

definition wire_has_health_checks :: "Handler \<Rightarrow> bool" where
  "wire_has_health_checks h = (Handler_HealthChecks h \<noteq> None)"

definition wire_has_transport :: "Handler \<Rightarrow> bool" where
  "wire_has_transport h = (Handler_Transport h \<noteq> None)"

definition wire_has_max_requests :: "Upstream \<Rightarrow> bool" where
  "wire_has_max_requests u = (Upstream_MaxRequests u \<noteq> 0)"

section \<open>The world outside the client\<close>

text \<open>
  A Go \<open>error\<close> is modelled by its message, the string \<open>err.Error()\<close>: the client
  builds every error with \<open>fmt.Errorf\<close> and the controller with \<open>errors.New\<close> and
  \<open>errors.Wrap\<close>, and the only thing the code ever reads from an error is its message.
  \<open>fmt.Errorf("p: %w", err)\<close> has the message \<open>p: \<close> followed by the message of
  \<open>err\<close>; \<open>errors.Wrap(err, "p")\<close> likewise.
\<close>

type_synonym go_error = string

record http_request =
  req_Method :: string
  req_URL :: string
  req_ContentType :: "string option"
  req_Body :: "string option"

record http_response =
  StatusCode :: int
  Body :: string

text \<open>
  What the client calls but does not define: building a request
  (\<open>http.NewRequestWithContext\<close>, which fails on a URL it cannot parse), the HTTP exchange
  itself (\<open>httpClient.Do\<close>, which either fails in transport or yields a response, and
  may change the state \<open>'s\<close> of the server), and the JSON codec. All theorems below
  hold for every such world unless they name a particular one.
\<close>

record 's world =
  NewRequest_error :: "string \<Rightarrow> string \<Rightarrow> go_error option"
  Do :: "'s \<Rightarrow> http_request \<Rightarrow> (go_error + http_response) \<times> 's"
  Marshal :: "ProxyRoute \<Rightarrow> go_error + string"
  DecodeRoutes :: "string \<Rightarrow> go_error + ProxyRoute list"
  DecodeUpstreams :: "string \<Rightarrow> go_error + UpstreamStatus list"

text \<open>\<open>%d\<close> of \<open>fmt\<close>: decimal digits, with a minus sign for a negative number.\<close>

fun show_nat :: "nat \<Rightarrow> string" where
  "show_nat n =
     (if n < 10 then [''0123456789'' ! n]
      else show_nat (n div 10) @ [''0123456789'' ! (n mod 10)])"

declare show_nat.simps [simp del]

definition show_int :: "int \<Rightarrow> string" where
  "show_int i = (if i < 0 then ''-'' @ show_nat (nat (- i)) else show_nat (nat i))"

text \<open>\<open>strings.HasSuffix\<close>, \<open>strings.TrimSuffix\<close> and \<open>strings.Contains\<close>.\<close>

definition HasSuffix :: "string \<Rightarrow> string \<Rightarrow> bool" where
  "HasSuffix s suffix =
     (length suffix \<le> length s \<and> drop (length s - length suffix) s = suffix)"

definition TrimSuffix :: "string \<Rightarrow> string \<Rightarrow> string" where
  "TrimSuffix s suffix =
     (if HasSuffix s suffix then take (length s - length suffix) s else s)"

fun Contains :: "string \<Rightarrow> string \<Rightarrow> bool" where
  "Contains [] substr = (substr = [])"
| "Contains (c # cs) substr =
     (take (length substr) (c # cs) = substr \<or> Contains cs substr)"

section \<open>The client operations\<close>

record Client =
  endpoint :: string

definition NewClient :: "string \<Rightarrow> Client" where
  "NewClient ep = \<lparr>endpoint = TrimSuffix ep ''/''\<rparr>"

definition routesPath :: "string \<Rightarrow> string" where
  "routesPath serverName = ''/config/apps/http/servers/'' @ serverName @ ''/routes''"

definition statusError :: "http_response \<Rightarrow> go_error" where
  "statusError resp =
     ''caddy API returned status '' @ show_int (StatusCode resp) @ '': '' @ Body resp"

definition CreateProxyRoute ::
  "'s world \<Rightarrow> Client \<Rightarrow> 's \<Rightarrow> string \<Rightarrow> ProxyRoute \<Rightarrow> (go_error + string) \<times> 's" where
  "CreateProxyRoute w c s serverName route =
     (let path = routesPath serverName in
      case Marshal w route of
        Inl err \<Rightarrow> (Inl (''failed to marshal route: '' @ err), s)
      | Inr body \<Rightarrow>
          (case NewRequest_error w ''POST'' (endpoint c @ path) of
             Some err \<Rightarrow> (Inl (''failed to create request: '' @ err), s)
           | None \<Rightarrow>
               (case Do w s \<lparr>req_Method = ''POST'', req_URL = endpoint c @ path,
                             req_ContentType = Some ''application/json'',
                             req_Body = Some body\<rparr> of
                  (Inl err, s') \<Rightarrow> (Inl (''failed to create route: '' @ err), s')
                | (Inr resp, s') \<Rightarrow>
                    if StatusCode resp < 200 \<or> StatusCode resp \<ge> 300
                    then (Inl (statusError resp), s')
                    else (Inr (generateRouteID route), s'))))"

text \<open>
  The scan of \<open>DeleteProxyRoute\<close>: the index of the first route whose identifier is
  \<open>routeID\<close>; \<open>None\<close> is the source's \<open>index == -1\<close>. The third argument is the
  index of the head of the list.
\<close>

fun findRouteIndex :: "ProxyRoute list \<Rightarrow> string \<Rightarrow> nat \<Rightarrow> nat option" where
  "findRouteIndex [] routeID i = None"
| "findRouteIndex (r # rs) routeID i =
     (if generateRouteID r = routeID then Some i else findRouteIndex rs routeID (Suc i))"

definition DeleteProxyRoute ::
  "'s world \<Rightarrow> Client \<Rightarrow> 's \<Rightarrow> string \<Rightarrow> string \<Rightarrow> (go_error + unit) \<times> 's" where
  "DeleteProxyRoute w c s serverName routeID =
     (let path = routesPath serverName in
      case NewRequest_error w ''GET'' (endpoint c @ path) of
        Some err \<Rightarrow> (Inl (''failed to create request: '' @ err), s)
      | None \<Rightarrow>
          (case Do w s \<lparr>req_Method = ''GET'', req_URL = endpoint c @ path,
                        req_ContentType = None, req_Body = None\<rparr> of
             (Inl err, s1) \<Rightarrow> (Inl (''failed to get routes: '' @ err), s1)
           | (Inr resp, s1) \<Rightarrow>
               if StatusCode resp = 404 then (Inr (), s1)
               else if StatusCode resp < 200 \<or> StatusCode resp \<ge> 300
               then (Inl (statusError resp), s1)
               else
                 (case DecodeRoutes w (Body resp) of
                    Inl err \<Rightarrow> (Inl (''failed to decode routes: '' @ err), s1)
                  | Inr routes \<Rightarrow>
                      (case findRouteIndex routes routeID 0 of
                         None \<Rightarrow> (Inr (), s1)
                       | Some index \<Rightarrow>
                           (let deletePath = routesPath serverName @ ''/'' @ show_nat index in
                            case NewRequest_error w ''DELETE'' (endpoint c @ deletePath) of
                              Some err \<Rightarrow>
                                (Inl (''failed to create delete request: '' @ err), s1)
                            | None \<Rightarrow>
                                (case Do w s1 \<lparr>req_Method = ''DELETE'',
                                               req_URL = endpoint c @ deletePath,
                                               req_ContentType = None,
                                               req_Body = None\<rparr> of
                                   (Inl err, s2) \<Rightarrow>
                                     (Inl (''failed to delete route: '' @ err), s2)
                                 | (Inr resp2, s2) \<Rightarrow>
                                     if StatusCode resp2 < 200 \<or> StatusCode resp2 \<ge> 300
                                     then (Inl (statusError resp2), s2)
                                     else (Inr (), s2)))))))"

definition GetProxyRoute ::
  "'s world \<Rightarrow> Client \<Rightarrow> 's \<Rightarrow> string \<Rightarrow> string \<Rightarrow> (go_error + ProxyRoute) \<times> 's" where
  "GetProxyRoute w c s serverName routeID =
     (let path = routesPath serverName in
      case NewRequest_error w ''GET'' (endpoint c @ path) of
        Some err \<Rightarrow> (Inl (''failed to create request: '' @ err), s)
      | None \<Rightarrow>
          (case Do w s \<lparr>req_Method = ''GET'', req_URL = endpoint c @ path,
                        req_ContentType = None, req_Body = None\<rparr> of
             (Inl err, s1) \<Rightarrow> (Inl (''failed to get routes: '' @ err), s1)
           | (Inr resp, s1) \<Rightarrow>
               if StatusCode resp = 404 then (Inl ''route not found'', s1)
               else if StatusCode resp < 200 \<or> StatusCode resp \<ge> 300
               then (Inl (statusError resp), s1)
               else
                 (case DecodeRoutes w (Body resp) of
                    Inl err \<Rightarrow> (Inl (''failed to decode routes: '' @ err), s1)
                  | Inr routes \<Rightarrow>
                      (case find (\<lambda>r. generateRouteID r = routeID) routes of
                         Some r \<Rightarrow> (Inr r, s1)
                       | None \<Rightarrow> (Inl ''route not found'', s1)))))"

definition GetUpstreamStatus ::
  "'s world \<Rightarrow> Client \<Rightarrow> 's \<Rightarrow> (go_error + UpstreamStatus list) \<times> 's" where
  "GetUpstreamStatus w c s =
     (let path = ''/reverse_proxy/upstreams'' in
      case NewRequest_error w ''GET'' (endpoint c @ path) of
        Some err \<Rightarrow> (Inl (''failed to create request: '' @ err), s)
      | None \<Rightarrow>
          (case Do w s \<lparr>req_Method = ''GET'', req_URL = endpoint c @ path,
                        req_ContentType = None, req_Body = None\<rparr> of
             (Inl err, s1) \<Rightarrow> (Inl (''failed to get upstream status: '' @ err), s1)
           | (Inr resp, s1) \<Rightarrow>
               if StatusCode resp < 200 \<or> StatusCode resp \<ge> 300
               then (Inl (statusError resp), s1)
               else
                 (case DecodeUpstreams w (Body resp) of
                    Inl err \<Rightarrow> (Inl (''failed to decode upstreams: '' @ err), s1)
                  | Inr upstreams \<Rightarrow> (Inr upstreams, s1))))"

definition UpdateProxyRoute ::
  "'s world \<Rightarrow> Client \<Rightarrow> 's \<Rightarrow> string \<Rightarrow> string \<Rightarrow> ProxyRoute \<Rightarrow> (go_error + unit) \<times> 's" where
  "UpdateProxyRoute w c s serverName routeID route =
     (case DeleteProxyRoute w c s serverName routeID of
        (Inl err, s1) \<Rightarrow> (Inl (''failed to delete old route: '' @ err), s1)
      | (Inr _, s1) \<Rightarrow>
          (case CreateProxyRoute w c s1 serverName route of
             (Inl err, s2) \<Rightarrow> (Inl (''failed to create updated route: '' @ err), s2)
           | (Inr _, s2) \<Rightarrow> (Inr (), s2)))"

section \<open>The reconciliation controller (internal/controller/proxyroute/proxyroute.go)\<close>

definition errNotProxyRoute :: string where
  "errNotProxyRoute = ''managed resource is not a ProxyRoute custom resource''"

definition errCreateRoute :: string where
  "errCreateRoute = ''cannot create proxy route''"

definition errUpdateRoute :: string where
  "errUpdateRoute = ''cannot update proxy route''"

definition errDeleteRoute :: string where
  "errDeleteRoute = ''cannot delete proxy route''"

definition errGetRoute :: string where
  "errGetRoute = ''cannot get proxy route''"

text \<open>
  The entry points take a \<open>resource.Managed\<close> and assert that it is a
  \<open>*v1alpha1.ProxyRoute\<close>; any other managed resource is \<open>OtherResource\<close>.
\<close>

datatype Managed = ProxyRouteResource v1_ProxyRoute | OtherResource

text \<open>The \<open>external\<close> struct; its logger only prints and is left out.\<close>

record external =
  client :: Client

definition Connect :: "Managed \<Rightarrow> go_error + external" where
  "Connect mg =
     (case mg of
        OtherResource \<Rightarrow> Inl errNotProxyRoute
      | ProxyRouteResource cr \<Rightarrow>
          Inr \<lparr>client = NewClient (CaddyEndpoint (ForProvider cr))\<rparr>)"

text \<open>
  The two fields of \<open>managed.ExternalObservation\<close> that the controller sets; the zero
  value has both false.
\<close>

record ExternalObservation =
  ResourceExists :: bool
  ResourceUpToDate :: bool

definition isUpToDate :: "v1_ProxyRoute \<Rightarrow> ProxyRoute \<Rightarrow> bool" where
  "isUpToDate cr route = False"

definition convertUpstreamStatuses :: "UpstreamStatus list \<Rightarrow> v1_UpstreamStatus list" where
  "convertUpstreamStatuses upstreams =
     map (\<lambda>u. \<lparr>v1_UpstreamStatus_Address = UpstreamStatus_Address u,
                v1_UpstreamStatus_Healthy = UpstreamStatus_Healthy u,
                v1_UpstreamStatus_NumRequests = UpstreamStatus_NumRequests u\<rparr>) upstreams"

definition serverNameOf :: "v1_ProxyRoute \<Rightarrow> string" where
  "serverNameOf cr =
     (case ServerName (ForProvider cr) of None \<Rightarrow> ''srv0'' | Some n \<Rightarrow> n)"

text \<open>
  Every entry point returns its result, the managed resource as the call left it (the Go
  code mutates it through the pointer) and the state of the server.
\<close>

definition Observe ::
  "'s world \<Rightarrow> external \<Rightarrow> 's \<Rightarrow> Managed \<Rightarrow> (go_error + ExternalObservation) \<times> Managed \<times> 's" where
  "Observe w e s mg =
     (case mg of
        OtherResource \<Rightarrow> (Inl errNotProxyRoute, mg, s)
      | ProxyRouteResource cr \<Rightarrow>
          (let routeID = ExternalName cr in
           if routeID = []
           then (Inr \<lparr>ResourceExists = False, ResourceUpToDate = False\<rparr>, mg, s)
           else
             (let serverName = serverNameOf cr in
              case GetProxyRoute w (client e) s serverName routeID of
                (Inl err, s1) \<Rightarrow>
                  if Contains err ''not found''
                  then (Inr \<lparr>ResourceExists = False, ResourceUpToDate = False\<rparr>, mg, s1)
                  else (Inl (errGetRoute @ '': '' @ err), mg, s1)
              | (Inr route, s1) \<Rightarrow>
                  (let cr1 = cr\<lparr>AtProvider := (AtProvider cr)\<lparr>RouteID := routeID\<rparr>\<rparr>;
                       (cr2, s2) =
                         (case GetUpstreamStatus w (client e) s1 of
                            (Inl err, s2) \<Rightarrow> (cr1, s2)
                          | (Inr upstreams, s2) \<Rightarrow>
                              (cr1\<lparr>AtProvider := (AtProvider cr1)
                                     \<lparr>UpstreamStatuses := convertUpstreamStatuses upstreams\<rparr>\<rparr>,
                               s2));
                       upToDate = isUpToDate cr2 route;
                       cr3 = cr2\<lparr>Ready := Some Available\<rparr>
                   in (Inr \<lparr>ResourceExists = True, ResourceUpToDate = upToDate\<rparr>,
                       ProxyRouteResource cr3, s2)))))"

definition Create ::
  "'s world \<Rightarrow> external \<Rightarrow> 's \<Rightarrow> Managed \<Rightarrow> (go_error + unit) \<times> Managed \<times> 's" where
  "Create w e s mg =
     (case mg of
        OtherResource \<Rightarrow> (Inl errNotProxyRoute, mg, s)
      | ProxyRouteResource cr \<Rightarrow>
          (let cr1 = cr\<lparr>Ready := Some Creating\<rparr>;
               serverName = serverNameOf cr1;
               route = convertToProxyRoute cr1
           in case CreateProxyRoute w (client e) s serverName route of
                (Inl err, s1) \<Rightarrow>
                  (Inl (errCreateRoute @ '': '' @ err), ProxyRouteResource cr1, s1)
              | (Inr routeID, s1) \<Rightarrow>
                  (Inr (), ProxyRouteResource (cr1\<lparr>ExternalName := routeID\<rparr>), s1)))"

definition Update ::
  "'s world \<Rightarrow> external \<Rightarrow> 's \<Rightarrow> Managed \<Rightarrow> (go_error + unit) \<times> Managed \<times> 's" where
  "Update w e s mg =
     (case mg of
        OtherResource \<Rightarrow> (Inl errNotProxyRoute, mg, s)
      | ProxyRouteResource cr \<Rightarrow>
          (let serverName = serverNameOf cr;
               routeID = ExternalName cr;
               route = convertToProxyRoute cr
           in case UpdateProxyRoute w (client e) s serverName routeID route of
                (Inl err, s1) \<Rightarrow> (Inl (errUpdateRoute @ '': '' @ err), mg, s1)
              | (Inr _, s1) \<Rightarrow> (Inr (), mg, s1)))"

definition Delete ::
  "'s world \<Rightarrow> external \<Rightarrow> 's \<Rightarrow> Managed \<Rightarrow> (go_error + unit) \<times> Managed \<times> 's" where
  "Delete w e s mg =
     (case mg of
        OtherResource \<Rightarrow> (Inl errNotProxyRoute, mg, s)
      | ProxyRouteResource cr \<Rightarrow>
          (let cr1 = cr\<lparr>Ready := Some Deleting\<rparr>;
               serverName = serverNameOf cr1;
               routeID = ExternalName cr1
           in if routeID = [] then (Inr (), ProxyRouteResource cr1, s)
              else
                (case DeleteProxyRoute w (client e) s serverName routeID of
                   (Inl err, s1) \<Rightarrow>
                     (Inl (errDeleteRoute @ '': '' @ err), ProxyRouteResource cr1, s1)
                 | (Inr _, s1) \<Rightarrow> (Inr (), ProxyRouteResource cr1, s1))))"

section \<open>Observing the requests a call issues\<close>

text \<open>
  A world that behaves as \<open>w\<close> and also appends every request handed to
  \<open>httpClient.Do\<close> to a log kept beside the server state.
\<close>

definition recording :: "'s world \<Rightarrow> ('s \<times> http_request list) world" where
  "recording w =
     \<lparr>NewRequest_error = NewRequest_error w,
      Do = (\<lambda>(s, log) req. case Do w s req of (r, s') \<Rightarrow> (r, (s', log @ [req]))),
      Marshal = Marshal w,
      DecodeRoutes = DecodeRoutes w,
      DecodeUpstreams = DecodeUpstreams w\<rparr>"

definition getRoutesRequest :: "Client \<Rightarrow> string \<Rightarrow> http_request" where
  "getRoutesRequest c serverName =
     \<lparr>req_Method = ''GET'', req_URL = endpoint c @ routesPath serverName,
      req_ContentType = None, req_Body = None\<rparr>"

definition deleteIndexRequest :: "Client \<Rightarrow> string \<Rightarrow> nat \<Rightarrow> http_request" where
  "deleteIndexRequest c serverName i =
     \<lparr>req_Method = ''DELETE'',
      req_URL = endpoint c @ routesPath serverName @ ''/'' @ show_nat i,
      req_ContentType = None, req_Body = None\<rparr>"

section \<open>A reference server for the route array\<close>

text \<open>
  The proxy server itself is not part of the repository. For the claims that speak of
  what the backend holds, this is the route array of one virtual server as the
  specification describes the admin API: GET on the array URL returns the array, POST
  appends the posted route, DELETE on the array URL followed by an index removes the
  entry at that index. A request the server rejects leaves the array as it is; the flag
  \<open>accepting\<close> says whether the server accepts a POST.
\<close>

text \<open>
  Reading an index back from its decimal digits: a digit is worth its position in the
  digit string that \<open>show_nat\<close> draws from.
\<close>

fun position :: "char \<Rightarrow> string \<Rightarrow> nat" where
  "position c [] = 0"
| "position c (d # ds) = (if c = d then 0 else Suc (position c ds))"

definition digit_value :: "char \<Rightarrow> nat" where
  "digit_value c = position c ''0123456789''"

definition read_nat :: "string \<Rightarrow> nat" where
  "read_nat ds = foldl (\<lambda>a c. 10 * a + digit_value c) 0 ds"

record array_server =
  held :: "ProxyRoute list"
  accepting :: bool

definition array_Do ::
  "string \<Rightarrow> (ProxyRoute list \<Rightarrow> string) \<Rightarrow> (string \<Rightarrow> ProxyRoute option) \<Rightarrow>
   array_server \<Rightarrow> http_request \<Rightarrow> (go_error + http_response) \<times> array_server" where
  "array_Do url encodeRoutes decodeRoute st req =
     (if req_Method req = ''GET'' \<and> req_URL req = url
      then (Inr \<lparr>StatusCode = 200, Body = encodeRoutes (held st)\<rparr>, st)
      else if req_Method req = ''POST'' \<and> req_URL req = url
      then
        (if accepting st
         then
           (case Option.bind (req_Body req) decodeRoute of
              None \<Rightarrow> (Inr \<lparr>StatusCode = 400, Body = ''malformed route''\<rparr>, st)
            | Some r \<Rightarrow> (Inr \<lparr>StatusCode = 200, Body = []\<rparr>, st\<lparr>held := held st @ [r]\<rparr>))
         else (Inr \<lparr>StatusCode = 500, Body = ''rejected''\<rparr>, st))
      else if req_Method req = ''DELETE'' \<and> take (length url + 1) (req_URL req) = url @ ''/''
      then
        (let digits = drop (length url + 1) (req_URL req);
             i = read_nat digits
         in if show_nat i = digits \<and> i < length (held st)
            then (Inr \<lparr>StatusCode = 200, Body = []\<rparr>,
                  st\<lparr>held := take i (held st) @ drop (Suc i) (held st)\<rparr>)
            else (Inr \<lparr>StatusCode = 404, Body = ''no such index''\<rparr>, st))
      else (Inr \<lparr>StatusCode = 404, Body = ''no such path''\<rparr>, st))"

text \<open>
  The world made of the reference server at \<open>url\<close>, a JSON codec for routes and route
  arrays, and request construction that never fails.
\<close>

definition array_world ::
  "string \<Rightarrow> (ProxyRoute list \<Rightarrow> string) \<Rightarrow> (string \<Rightarrow> go_error + ProxyRoute list) \<Rightarrow>
   (ProxyRoute \<Rightarrow> string) \<Rightarrow> (string \<Rightarrow> ProxyRoute option) \<Rightarrow> array_server world" where
  "array_world url encodeRoutes decodeRoutes encodeRoute decodeRoute =
     \<lparr>NewRequest_error = (\<lambda>m u. None),
      Do = array_Do url encodeRoutes decodeRoute,
      Marshal = (\<lambda>r. Inr (encodeRoute r)),
      DecodeRoutes = decodeRoutes,
      DecodeUpstreams = (\<lambda>b. Inl ''unexpected end of JSON input'')\<rparr>"

text \<open>
  A server without state that answers every request by a fixed function, with a fixed
  decoder for route arrays.
\<close>

definition scripted_world ::
  "(http_request \<Rightarrow> go_error + http_response) \<Rightarrow> (string \<Rightarrow> go_error + ProxyRoute list) \<Rightarrow>
   unit world" where
  "scripted_world answer decodeRoutes =
     \<lparr>NewRequest_error = (\<lambda>m u. None),
      Do = (\<lambda>s req. (answer req, s)),
      Marshal = (\<lambda>r. Inr ''{}''),
      DecodeRoutes = decodeRoutes,
      DecodeUpstreams = (\<lambda>b. Inl ''unexpected end of JSON input'')\<rparr>"

section \<open>Example values\<close>

text \<open>
  Two remote routes with the same host, path and method in their first match set that
  differ in everything else: header conditions, a further match set, the handler chain
  and the terminal flag.
\<close>

definition example_route_a :: ProxyRoute where
  "example_route_a =
     \<lparr>ProxyRoute_Match =
        [\<lparr>MatchSet_Host = [''a.com'', ''b.com''], MatchSet_Path = [],
          MatchSet_Method = [''GET''], MatchSet_Header = Map.empty\<rparr>],
      ProxyRoute_Handle =
        [Handler ''reverse_proxy'' []
           [\<lparr>Upstream_Dial = ''b:80'', Upstream_MaxRequests = 0\<rparr>] None None None None],
      ProxyRoute_Terminal = True\<rparr>"

definition example_route_b :: ProxyRoute where
  "example_route_b =
     \<lparr>ProxyRoute_Match =
        [\<lparr>MatchSet_Host = [''a.com'', ''b.com''], MatchSet_Path = [],
          MatchSet_Method = [''GET''],
          MatchSet_Header = [''X-Tenant'' \<mapsto> [''blue'']]\<rparr>,
         \<lparr>MatchSet_Host = [''c.com''], MatchSet_Path = [''/api/*''],
          MatchSet_Method = [], MatchSet_Header = Map.empty\<rparr>],
      ProxyRoute_Handle = [],
      ProxyRoute_Terminal = False\<rparr>"

text \<open>
  A desired route with a match condition, one upstream whose \<open>maxRequests\<close> is set to
  0, and a TLS block that is present but not enabled.
\<close>

definition example_desired :: v1_ProxyRoute where
  "example_desired =
     \<lparr>ExternalName = [],
      ForProvider =
        \<lparr>CaddyEndpoint = ''http://caddy:2019/'',
         ServerName = None,
         Match = Some \<lparr>v1_RouteMatch_Host = [''a.com''], v1_RouteMatch_Path = [],
                        v1_RouteMatch_Method = [], v1_RouteMatch_Headers = Map.empty\<rparr>,
         Upstreams = [\<lparr>v1_Upstream_Dial = ''b:80'', v1_Upstream_MaxRequests = Some 0\<rparr>],
         LoadBalancing = None,
         Headers = None,
         HealthChecks = None,
         TLS = Some \<lparr>v1_UpstreamTLS_Enabled = Some False,
                      v1_UpstreamTLS_ServerName = Some ''internal'',
                      v1_UpstreamTLS_InsecureSkipVerify = None\<rparr>\<rparr>,
      AtProvider = \<lparr>RouteID = [], UpstreamStatuses = []\<rparr>,
      Ready = None\<rparr>"

text \<open>The same desired route with TLS enabled and a positive \<open>maxRequests\<close>.\<close>

definition example_desired_tls :: v1_ProxyRoute where
  "example_desired_tls =
     example_desired
       \<lparr>ForProvider := (ForProvider example_desired)
          \<lparr>Upstreams := [\<lparr>v1_Upstream_Dial = ''b:80'', v1_Upstream_MaxRequests = Some 5\<rparr>,
                         \<lparr>v1_Upstream_Dial = ''c:80'', v1_Upstream_MaxRequests = None\<rparr>],
           TLS := Some \<lparr>v1_UpstreamTLS_Enabled = Some True,
                         v1_UpstreamTLS_ServerName = Some ''internal'',
                         v1_UpstreamTLS_InsecureSkipVerify = None\<rparr>\<rparr>\<rparr>"

text \<open>
  The client of the example resource, and the resource once it has been created: its
  external name is the identifier of its translated route.
\<close>

definition example_external :: external where
  "example_external = \<lparr>client = NewClient ''http://caddy:2019/''\<rparr>"

definition example_created :: v1_ProxyRoute where
  "example_created = example_desired\<lparr>ExternalName := ''host:a.com''\<rparr>"

definition example_remote :: ProxyRoute where
  "example_remote = convertToProxyRoute example_desired"

text \<open>
  A server that answers every request with the same status and body, and a decoder that
  knows three bodies.
\<close>

definition answer_always :: "int \<Rightarrow> string \<Rightarrow> http_request \<Rightarrow> go_error + http_response" where
  "answer_always code body req = Inr \<lparr>StatusCode = code, Body = body\<rparr>"

definition decode_example :: "string \<Rightarrow> go_error + ProxyRoute list" where
  "decode_example b =
     (if b = ''[A,R,R]'' then Inr [example_route_a, example_remote, example_remote]
      else if b = ''[R]'' then Inr [example_remote]
      else if b = ''[]'' then Inr []
      else Inl ''invalid character'')"

text \<open>
  The requests the client sends for the example resource.
\<close>

definition example_get_routes :: http_request where
  "example_get_routes =
     \<lparr>req_Method = ''GET'',
      req_URL = ''http://caddy:2019/config/apps/http/servers/srv0/routes'',
      req_ContentType = None, req_Body = None\<rparr>"

definition example_delete_1 :: http_request where
  "example_delete_1 =
     \<lparr>req_Method = ''DELETE'',
      req_URL = ''http://caddy:2019/config/apps/http/servers/srv0/routes/1'',
      req_ContentType = None, req_Body = None\<rparr>"

text \<open>
  A reference server at the array URL of the example whose array holds copies of the
  two routes \<open>example_remote\<close> (identifier "host:a.com") and \<open>example_route_a\<close>
  only, so that a body can be a string of letters: R for the first route and A for the
  second.
\<close>

definition example_url :: string where
  "example_url = ''http://caddy:2019/config/apps/http/servers/srv0/routes''"

definition example_encode_routes :: "ProxyRoute list \<Rightarrow> string" where
  "example_encode_routes rs =
     map (\<lambda>r. if generateRouteID r = ''host:a.com'' then CHR ''R'' else CHR ''A'') rs"

definition example_decode_routes :: "string \<Rightarrow> go_error + ProxyRoute list" where
  "example_decode_routes b =
     Inr (map (\<lambda>l. if l = CHR ''R'' then example_remote else example_route_a) b)"

definition example_array_world :: "array_server world" where
  "example_array_world =
     array_world example_url example_encode_routes example_decode_routes
       (\<lambda>r. example_encode_routes [r])
       (\<lambda>b. if b = ''R'' then Some example_remote
            else if b = ''A'' then Some example_route_a else None)"


section \<open>Properties of the route identity\<close>

lemma generateRouteID_key:
  "generateRouteID route = spec_identity (first_match_key route)"
proof (cases "ProxyRoute_Match route")
  case Nil
  then show ?thesis
    by (simp add: generateRouteID_def spec_identity_def first_match_key_def)
next
  case (Cons m ms)
  then show ?thesis
    by (simp add: generateRouteID_def spec_identity_def first_match_key_def
        spec_identity_parts_def Let_def)
qed

text \<open>
  C1. For every remote route, \<open>generateRouteID\<close> returns what the specification's
  identity scheme gives on the host, path and method fields of the first match set: the
  constant "default" when the route has no match set; otherwise the parts "host:", "path:"
  and "method:", each followed by its comma-joined values and each present only when its
  field is non-empty, in that order, joined with a bar; and "default" again when all
  three fields are empty. Header conditions never contribute: replacing the header map of
  every match set by any other leaves the identifier unchanged.
\<close>

theorem generateRouteID_follows_spec:
  "generateRouteID r = spec_identity (first_match_key r) \<and>
   generateRouteID
     (r\<lparr>ProxyRoute_Match := map (\<lambda>m. m\<lparr>MatchSet_Header := h m\<rparr>) (ProxyRoute_Match r)\<rparr>)
     = generateRouteID r"
proof
  show "generateRouteID r = spec_identity (first_match_key r)"
    by (rule generateRouteID_key)
next
  let ?r' = "r\<lparr>ProxyRoute_Match := map (\<lambda>m. m\<lparr>MatchSet_Header := h m\<rparr>) (ProxyRoute_Match r)\<rparr>"
  have "first_match_key ?r' = first_match_key r"
    by (cases "ProxyRoute_Match r") (simp_all add: first_match_key_def)
  then show "generateRouteID ?r' = generateRouteID r"
    by (simp add: generateRouteID_key)
qed

theorem generateRouteID_follows_spec_witness:
  "generateRouteID example_route_a = ''host:a.com,b.com|method:GET'' \<and>
   generateRouteID (example_route_a\<lparr>ProxyRoute_Match := []\<rparr>) = ''default''"
  using generateRouteID_follows_spec [of example_route_a "\<lambda>m. Map.empty"]
    generateRouteID_follows_spec [of "example_route_a\<lparr>ProxyRoute_Match := []\<rparr>" "\<lambda>m. Map.empty"]
  by (simp add: example_route_a_def spec_identity_def spec_identity_parts_def
      first_match_key_def)

text \<open>
  C8. Two remote routes whose first match sets have the same host, path and method
  fields (or which both have no match set) get the same identifier, whatever their header
  conditions, further match sets, handlers and terminal flags are.
\<close>

theorem generateRouteID_same_first_match:
  "first_match_key r1 = first_match_key r2 \<Longrightarrow> generateRouteID r1 = generateRouteID r2"
  by (simp add: generateRouteID_key)

theorem generateRouteID_same_first_match_witness:
  "first_match_key example_route_a = first_match_key example_route_b \<and>
   ProxyRoute_Terminal example_route_a \<and> \<not> ProxyRoute_Terminal example_route_b \<and>
   length (ProxyRoute_Match example_route_a) = 1 \<and>
   length (ProxyRoute_Match example_route_b) = 2 \<and>
   MatchSet_Header (hd (ProxyRoute_Match example_route_a)) ''X-Tenant'' = None \<and>
   MatchSet_Header (hd (ProxyRoute_Match example_route_b)) ''X-Tenant'' = Some [''blue''] \<and>
   generateRouteID example_route_a = generateRouteID example_route_b"
proof -
  have k: "first_match_key example_route_a = first_match_key example_route_b"
    by (simp add: first_match_key_def example_route_a_def example_route_b_def)
  from generateRouteID_same_first_match [OF k] k show ?thesis
    by (simp add: example_route_a_def example_route_b_def)
qed

section \<open>Properties of the translation\<close>

lemma convertUpstream_max_requests:
  "wire_has_max_requests (convertUpstream u) =
     (\<exists>n. v1_Upstream_MaxRequests u = Some n \<and> n \<noteq> 0)"
  by (cases "v1_Upstream_MaxRequests u")
     (simp_all add: convertUpstream_def wire_has_max_requests_def)

lemma convertUpstream_value:
  "convertUpstream u =
     \<lparr>Upstream_Dial = v1_Upstream_Dial u,
      Upstream_MaxRequests = (case v1_Upstream_MaxRequests u of None \<Rightarrow> 0 | Some n \<Rightarrow> n)\<rparr>"
  by (cases "v1_Upstream_MaxRequests u") (simp_all add: convertUpstream_def)

lemma convertTLS_present:
  "(convertTLS t \<noteq> None) =
     (\<exists>tls. t = Some tls \<and> v1_UpstreamTLS_Enabled tls = Some True)"
  by (auto simp: convertTLS_def split: option.splits)

text \<open>
  C7, as stated, fails: the presence of the transport block is not equivalent to the
  presence of the TLS block of the desired route, and the presence of
  \<open>max_requests\<close> on the wire is not equivalent to the presence of \<open>maxRequests\<close>.
  The example has a TLS block that is not enabled and an upstream with
  \<open>maxRequests\<close> 0; the translated handler has no transport and its upstream carries
  the integer 0, which \<open>omitempty\<close> leaves out.
\<close>

theorem convertToProxyRoute_presence_counterexample:
  "\<not> (wire_has_transport (hd (ProxyRoute_Handle (convertToProxyRoute example_desired)))
        = (TLS (ForProvider example_desired) \<noteq> None)) \<and>
   \<not> (wire_has_max_requests
          (hd (Handler_Upstreams (hd (ProxyRoute_Handle (convertToProxyRoute example_desired)))))
        = (v1_Upstream_MaxRequests (hd (Upstreams (ForProvider example_desired))) \<noteq> None))"
  by (simp add: convertToProxyRoute_def example_desired_def convertTLS_def
      convertUpstream_def wire_has_transport_def wire_has_max_requests_def)

text \<open>
  C7, amended. The translation has no failure branch: every desired route yields one
  terminal route with exactly one handler, of kind "reverse_proxy". The match set, the
  load-balancing block, the header block and the health-check block are present on the
  wire exactly when the corresponding field of the desired route is non-nil. The transport
  block is present exactly when the TLS block is non-nil and its \<open>enabled\<close> flag is set
  and true. The upstreams are translated one to one and in order: the dial address is
  copied, and \<open>max_requests\<close> is the plain integer that \<open>maxRequests\<close> points to,
  or 0 when \<open>maxRequests\<close> is nil; so \<open>max_requests\<close> is present on the wire
  exactly when \<open>maxRequests\<close> is non-nil and not 0.
\<close>

theorem convertToProxyRoute_presence:
  "\<exists>h. ProxyRoute_Handle (convertToProxyRoute cr) = [h] \<and>
       ProxyRoute_Terminal (convertToProxyRoute cr) \<and>
       Handler_Handler h = ''reverse_proxy'' \<and>
       wire_has_match (convertToProxyRoute cr) = (Match (ForProvider cr) \<noteq> None) \<and>
       wire_has_load_balancing h = (LoadBalancing (ForProvider cr) \<noteq> None) \<and>
       wire_has_headers h = (Headers (ForProvider cr) \<noteq> None) \<and>
       wire_has_health_checks h = (HealthChecks (ForProvider cr) \<noteq> None) \<and>
       wire_has_transport h =
         (\<exists>tls. TLS (ForProvider cr) = Some tls \<and> v1_UpstreamTLS_Enabled tls = Some True) \<and>
       Handler_Upstreams h =
         map (\<lambda>u. \<lparr>Upstream_Dial = v1_Upstream_Dial u,
                    Upstream_MaxRequests =
                      (case v1_Upstream_MaxRequests u of None \<Rightarrow> 0 | Some n \<Rightarrow> n)\<rparr>)
           (Upstreams (ForProvider cr)) \<and>
       map wire_has_max_requests (Handler_Upstreams h) =
         map (\<lambda>u. \<exists>n. v1_Upstream_MaxRequests u = Some n \<and> n \<noteq> 0)
           (Upstreams (ForProvider cr))"
proof -
  let ?p = "ForProvider cr"
  let ?h = "Handler ''reverse_proxy'' []
      (map convertUpstream (Upstreams ?p))
      (case LoadBalancing ?p of None \<Rightarrow> None | Some lb \<Rightarrow> Some (convertLoadBalancing lb))
      (case Headers ?p of None \<Rightarrow> None | Some h \<Rightarrow> Some (convertHeaders h))
      (case HealthChecks ?p of None \<Rightarrow> None | Some hc \<Rightarrow> Some (convertHealthChecks hc))
      (convertTLS (TLS ?p))"
  have handle: "ProxyRoute_Handle (convertToProxyRoute cr) = [?h]"
    by (simp add: convertToProxyRoute_def Let_def)
  have terminal: "ProxyRoute_Terminal (convertToProxyRoute cr)"
    by (simp add: convertToProxyRoute_def Let_def)
  have kind: "Handler_Handler ?h = ''reverse_proxy''"
    by simp
  have m: "wire_has_match (convertToProxyRoute cr) = (Match ?p \<noteq> None)"
    by (cases "Match ?p") (simp_all add: convertToProxyRoute_def Let_def wire_has_match_def)
  have lb: "wire_has_load_balancing ?h = (LoadBalancing ?p \<noteq> None)"
    by (cases "LoadBalancing ?p") (simp_all add: wire_has_load_balancing_def)
  have hd: "wire_has_headers ?h = (Headers ?p \<noteq> None)"
    by (cases "Headers ?p") (simp_all add: wire_has_headers_def)
  have hc: "wire_has_health_checks ?h = (HealthChecks ?p \<noteq> None)"
    by (cases "HealthChecks ?p") (simp_all add: wire_has_health_checks_def)
  have tr: "wire_has_transport ?h =
      (\<exists>tls. TLS ?p = Some tls \<and> v1_UpstreamTLS_Enabled tls = Some True)"
    using convertTLS_present [of "TLS ?p"] by (simp add: wire_has_transport_def)
  have ups: "Handler_Upstreams ?h =
      map (\<lambda>u. \<lparr>Upstream_Dial = v1_Upstream_Dial u,
                 Upstream_MaxRequests =
                   (case v1_Upstream_MaxRequests u of None \<Rightarrow> 0 | Some n \<Rightarrow> n)\<rparr>)
        (Upstreams ?p)"
    by (simp add: convertUpstream_value)
  have mr: "map wire_has_max_requests (Handler_Upstreams ?h) =
      map (\<lambda>u. \<exists>n. v1_Upstream_MaxRequests u = Some n \<and> n \<noteq> 0) (Upstreams ?p)"
    by (simp add: convertUpstream_max_requests comp_def)
  show ?thesis
  proof (intro exI conjI)
    show "ProxyRoute_Handle (convertToProxyRoute cr) = [?h]" by (rule handle)
    show "ProxyRoute_Terminal (convertToProxyRoute cr)" by (rule terminal)
    show "Handler_Handler ?h = ''reverse_proxy''" by (rule kind)
    show "wire_has_match (convertToProxyRoute cr) = (Match ?p \<noteq> None)" by (rule m)
    show "wire_has_load_balancing ?h = (LoadBalancing ?p \<noteq> None)" by (rule lb)
    show "wire_has_headers ?h = (Headers ?p \<noteq> None)" by (rule hd)
    show "wire_has_health_checks ?h = (HealthChecks ?p \<noteq> None)" by (rule hc)
    show "wire_has_transport ?h =
      (\<exists>tls. TLS ?p = Some tls \<and> v1_UpstreamTLS_Enabled tls = Some True)" by (rule tr)
    show "Handler_Upstreams ?h =
      map (\<lambda>u. \<lparr>Upstream_Dial = v1_Upstream_Dial u,
                 Upstream_MaxRequests =
                   (case v1_Upstream_MaxRequests u of None \<Rightarrow> 0 | Some n \<Rightarrow> n)\<rparr>)
        (Upstreams ?p)" by (rule ups)
    show "map wire_has_max_requests (Handler_Upstreams ?h) =
      map (\<lambda>u. \<exists>n. v1_Upstream_MaxRequests u = Some n \<and> n \<noteq> 0) (Upstreams ?p)"
      by (rule mr)
  qed
qed

theorem convertToProxyRoute_presence_witness:
  "\<exists>h. ProxyRoute_Handle (convertToProxyRoute example_desired_tls) = [h] \<and>
       wire_has_match (convertToProxyRoute example_desired_tls) \<and>
       \<not> wire_has_load_balancing h \<and>
       wire_has_transport h \<and>
       Handler_Upstreams h =
         [\<lparr>Upstream_Dial = ''b:80'', Upstream_MaxRequests = 5\<rparr>,
          \<lparr>Upstream_Dial = ''c:80'', Upstream_MaxRequests = 0\<rparr>] \<and>
       map wire_has_max_requests (Handler_Upstreams h) = [True, False]"
proof -
  let ?r = "convertToProxyRoute example_desired_tls"
  let ?p = "ForProvider example_desired_tls"
  from convertToProxyRoute_presence [of example_desired_tls]
  obtain h where handle: "ProxyRoute_Handle ?r = [h]"
    and m: "wire_has_match ?r = (Match ?p \<noteq> None)"
    and lb: "wire_has_load_balancing h = (LoadBalancing ?p \<noteq> None)"
    and tr: "wire_has_transport h =
      (\<exists>tls. TLS ?p = Some tls \<and> v1_UpstreamTLS_Enabled tls = Some True)"
    and ups: "Handler_Upstreams h =
      map (\<lambda>u. \<lparr>Upstream_Dial = v1_Upstream_Dial u,
                 Upstream_MaxRequests =
                   (case v1_Upstream_MaxRequests u of None \<Rightarrow> 0 | Some n \<Rightarrow> n)\<rparr>)
        (Upstreams ?p)"
    and mr: "map wire_has_max_requests (Handler_Upstreams h) =
      map (\<lambda>u. \<exists>n. v1_Upstream_MaxRequests u = Some n \<and> n \<noteq> 0) (Upstreams ?p)"
    by blast
  have "wire_has_match ?r"
    using m by (simp add: example_desired_tls_def example_desired_def)
  moreover have "\<not> wire_has_load_balancing h"
    using lb by (simp add: example_desired_tls_def example_desired_def)
  moreover have "wire_has_transport h"
    using tr by (simp add: example_desired_tls_def example_desired_def)
  moreover have "Handler_Upstreams h =
      [\<lparr>Upstream_Dial = ''b:80'', Upstream_MaxRequests = 5\<rparr>,
       \<lparr>Upstream_Dial = ''c:80'', Upstream_MaxRequests = 0\<rparr>]"
    using ups by (simp add: example_desired_tls_def example_desired_def)
  moreover have "map wire_has_max_requests (Handler_Upstreams h) = [True, False]"
    using mr by (simp add: example_desired_tls_def example_desired_def)
  ultimately show ?thesis
    using handle by (intro exI [of _ h]) simp
qed

section \<open>Auxiliary facts\<close>

subsection \<open>Strings and indices\<close>

lemma take_eq_prefix: "(take (length sub) xs = sub) = (\<exists>q. xs = sub @ q)"
proof
  assume "take (length sub) xs = sub"
  then have "xs = sub @ drop (length sub) xs"
    by (metis append_take_drop_id)
  then show "\<exists>q. xs = sub @ q" ..
next
  assume "\<exists>q. xs = sub @ q"
  then show "take (length sub) xs = sub" by auto
qed

lemma Contains_iff: "Contains s sub = (\<exists>p q. s = p @ sub @ q)"
proof (induction s)
  case Nil
  then show ?case by auto
next
  case (Cons c cs)
  have "(\<exists>p q. c # cs = p @ sub @ q) =
        ((\<exists>q. c # cs = sub @ q) \<or> (\<exists>p' q. cs = p' @ sub @ q))"
  proof
    assume "\<exists>p q. c # cs = p @ sub @ q"
    then obtain p q where pq: "c # cs = p @ sub @ q" by blast
    show "(\<exists>q. c # cs = sub @ q) \<or> (\<exists>p' q. cs = p' @ sub @ q)"
    proof (cases p)
      case Nil
      with pq show ?thesis by auto
    next
      case (Cons a p')
      with pq show ?thesis by auto
    qed
  next
    assume "(\<exists>q. c # cs = sub @ q) \<or> (\<exists>p' q. cs = p' @ sub @ q)"
    then show "\<exists>p q. c # cs = p @ sub @ q"
    proof
      assume "\<exists>q. c # cs = sub @ q"
      then show ?thesis by (metis append_Nil)
    next
      assume "\<exists>p' q. cs = p' @ sub @ q"
      then obtain p' q where "cs = p' @ sub @ q" by blast
      then have "c # cs = (c # p') @ sub @ q" by simp
      then show ?thesis by blast
    qed
  qed
  with Cons show ?case
    by (simp add: take_eq_prefix del: take_Suc_Cons)
qed

lemma findRouteIndex_None:
  "(findRouteIndex rs routeID k = None) = (\<forall>r \<in> set rs. generateRouteID r \<noteq> routeID)"
  by (induction rs arbitrary: k) auto

lemma findRouteIndex_first:
  "i < length rs \<Longrightarrow> generateRouteID (rs ! i) = routeID \<Longrightarrow>
   \<forall>j < i. generateRouteID (rs ! j) \<noteq> routeID \<Longrightarrow>
   findRouteIndex rs routeID k = Some (k + i)"
proof (induction rs arbitrary: i k)
  case Nil
  then show ?case by simp
next
  case (Cons r rs)
  show ?case
  proof (cases i)
    case 0
    with Cons.prems show ?thesis by simp
  next
    case (Suc i')
    with Cons.prems have "generateRouteID r \<noteq> routeID" by auto
    moreover from Suc Cons.prems have "findRouteIndex rs routeID (Suc k) = Some (Suc k + i')"
      by (intro Cons.IH) auto
    ultimately show ?thesis using Suc by simp
  qed
qed

lemma findRouteIndex_Some:
  "findRouteIndex rs routeID k = Some n \<Longrightarrow>
   \<exists>i. n = k + i \<and> i < length rs \<and> generateRouteID (rs ! i) = routeID \<and>
       (\<forall>j < i. generateRouteID (rs ! j) \<noteq> routeID)"
proof (induction rs arbitrary: k)
  case Nil
  then show ?case by simp
next
  case (Cons r rs)
  show ?case
  proof (cases "generateRouteID r = routeID")
    case True
    with Cons.prems have "n = k" by simp
    with True show ?thesis by (intro exI [of _ 0]) simp
  next
    case False
    with Cons.prems have "findRouteIndex rs routeID (Suc k) = Some n" by simp
    from Cons.IH [OF this] obtain i where i: "n = Suc k + i" "i < length rs"
      "generateRouteID (rs ! i) = routeID" "\<forall>j < i. generateRouteID (rs ! j) \<noteq> routeID"
      by blast
    have "\<forall>j < Suc i. generateRouteID ((r # rs) ! j) \<noteq> routeID"
      using False i(4) by (auto simp: less_Suc_eq_0_disj)
    with i show ?thesis by (intro exI [of _ "Suc i"]) simp
  qed
qed

lemma digit_value_nth: "d < 10 \<Longrightarrow> digit_value (''0123456789'' ! d) = d"
proof -
  assume "d < 10"
  then have "d \<in> {0, 1, 2, 3, 4, 5, 6, 7, 8, 9}" by auto
  then show ?thesis by (auto simp: digit_value_def)
qed

lemma read_nat_snoc: "read_nat (ds @ [c]) = 10 * read_nat ds + digit_value c"
  by (simp add: read_nat_def)

lemma read_nat_show_nat: "read_nat (show_nat n) = n"
proof (induction n rule: show_nat.induct)
  case (1 n)
  show ?case
  proof (cases "n < 10")
    case True
    then show ?thesis
      by (subst show_nat.simps) (simp add: read_nat_def digit_value_nth)
  next
    case False
    with 1 have "read_nat (show_nat (n div 10)) = n div 10" by simp
    with False show ?thesis
      by (subst show_nat.simps) (simp add: read_nat_snoc digit_value_nth)
  qed
qed

lemma show_int_500: "show_int 500 = ''500''"
  by (simp add: show_int_def show_nat.simps)

lemma show_int_503: "show_int 503 = ''503''"
  by (simp add: show_int_def show_nat.simps)

subsection \<open>The recording world and the scan\<close>

lemma Do_recording:
  "Do w s req = (r, s') \<Longrightarrow> Do (recording w) (s, log) req = (r, (s', log @ [req]))"
  by (simp add: recording_def)

lemma recording_fields:
  "NewRequest_error (recording w) = NewRequest_error w"
  "DecodeRoutes (recording w) = DecodeRoutes w"
  "Marshal (recording w) = Marshal w"
  by (simp_all add: recording_def)

subsection \<open>The client operations, branch by branch\<close>

lemma CreateProxyRoute_Inr:
  "CreateProxyRoute w c s srv route = (Inr rid, s1) \<Longrightarrow> rid = generateRouteID route"
  by (auto simp: CreateProxyRoute_def Let_def split: sum.splits option.splits prod.splits if_splits)

lemma GetProxyRoute_status_error:
  "NewRequest_error w ''GET'' (endpoint c @ routesPath srv) = None \<Longrightarrow>
   Do w s (getRoutesRequest c srv) = (Inr resp, s1) \<Longrightarrow>
   StatusCode resp \<noteq> 404 \<Longrightarrow>
   StatusCode resp < 200 \<or> 300 \<le> StatusCode resp \<Longrightarrow>
   GetProxyRoute w c s srv routeID = (Inl (statusError resp), s1)"
  by (auto simp: GetProxyRoute_def getRoutesRequest_def Let_def)

lemma DeleteProxyRoute_404:
  "NewRequest_error w ''GET'' (endpoint c @ routesPath srv) = None \<Longrightarrow>
   Do w s (getRoutesRequest c srv) = (Inr resp, s1) \<Longrightarrow>
   StatusCode resp = 404 \<Longrightarrow>
   DeleteProxyRoute w c s srv routeID = (Inr (), s1)"
  by (simp add: DeleteProxyRoute_def getRoutesRequest_def Let_def)

lemma DeleteProxyRoute_no_match:
  "NewRequest_error w ''GET'' (endpoint c @ routesPath srv) = None \<Longrightarrow>
   Do w s (getRoutesRequest c srv) = (Inr resp, s1) \<Longrightarrow>
   200 \<le> StatusCode resp \<Longrightarrow> StatusCode resp < 300 \<Longrightarrow>
   DecodeRoutes w (Body resp) = Inr routes \<Longrightarrow>
   \<forall>r \<in> set routes. generateRouteID r \<noteq> routeID \<Longrightarrow>
   DeleteProxyRoute w c s srv routeID = (Inr (), s1)"
  using findRouteIndex_None [of routes routeID 0]
  by (simp add: DeleteProxyRoute_def getRoutesRequest_def Let_def)

lemma DeleteProxyRoute_match:
  "NewRequest_error w ''GET'' (endpoint c @ routesPath srv) = None \<Longrightarrow>
   Do w s (getRoutesRequest c srv) = (Inr resp, s1) \<Longrightarrow>
   200 \<le> StatusCode resp \<Longrightarrow> StatusCode resp < 300 \<Longrightarrow>
   DecodeRoutes w (Body resp) = Inr routes \<Longrightarrow>
   findRouteIndex routes routeID 0 = Some i \<Longrightarrow>
   NewRequest_error w ''DELETE'' (endpoint c @ routesPath srv @ ''/'' @ show_nat i) = None \<Longrightarrow>
   DeleteProxyRoute w c s srv routeID =
     (case Do w s1 (deleteIndexRequest c srv i) of
        (Inl err, s2) \<Rightarrow> (Inl (''failed to delete route: '' @ err), s2)
      | (Inr resp2, s2) \<Rightarrow>
          if StatusCode resp2 < 200 \<or> 300 \<le> StatusCode resp2
          then (Inl (statusError resp2), s2) else (Inr (), s2))"
  by (simp add: DeleteProxyRoute_def getRoutesRequest_def deleteIndexRequest_def Let_def)

subsection \<open>The controller reads only the desired state\<close>

lemma convertToProxyRoute_Ready:
  "convertToProxyRoute (cr\<lparr>Ready := x\<rparr>) = convertToProxyRoute cr"
  by (simp add: convertToProxyRoute_def)

lemma serverNameOf_Ready: "serverNameOf (cr\<lparr>Ready := x\<rparr>) = serverNameOf cr"
  by (simp add: serverNameOf_def)

subsection \<open>The reference server\<close>

lemma array_world_fields:
  "NewRequest_error (array_world url eR dR e1 d1) = (\<lambda>m u. None)"
  "Do (array_world url eR dR e1 d1) = array_Do url eR d1"
  "Marshal (array_world url eR dR e1 d1) = (\<lambda>r. Inr (e1 r))"
  "DecodeRoutes (array_world url eR dR e1 d1) = dR"
  by (simp_all add: array_world_def)

lemma array_Do_get:
  "endpoint c @ routesPath srv = url \<Longrightarrow>
   array_Do url eR d1 st (getRoutesRequest c srv) = (Inr \<lparr>StatusCode = 200, Body = eR (held st)\<rparr>, st)"
  by (simp add: array_Do_def getRoutesRequest_def)

lemma array_Do_delete:
  assumes u: "endpoint c @ routesPath srv = url" and i: "i < length (held st)"
  shows "array_Do url eR d1 st (deleteIndexRequest c srv i)
    = (Inr \<lparr>StatusCode = 200, Body = []\<rparr>, st\<lparr>held := take i (held st) @ drop (Suc i) (held st)\<rparr>)"
proof -
  have url: "req_URL (deleteIndexRequest c srv i) = url @ ''/'' @ show_nat i"
    using u by (simp add: deleteIndexRequest_def flip: append_assoc)
  have m: "req_Method (deleteIndexRequest c srv i) = ''DELETE''"
    by (simp add: deleteIndexRequest_def)
  show ?thesis
    using i by (simp add: array_Do_def url m Let_def read_nat_show_nat)
qed

lemma array_Do_post_rejected:
  "endpoint c @ routesPath srv = url \<Longrightarrow> \<not> accepting st \<Longrightarrow>
   array_Do url eR d1 st \<lparr>req_Method = ''POST'', req_URL = endpoint c @ routesPath srv,
       req_ContentType = ct, req_Body = b\<rparr>
    = (Inr \<lparr>StatusCode = 500, Body = ''rejected''\<rparr>, st)"
  by (simp add: array_Do_def)

lemma array_Delete:
  assumes u: "endpoint c @ routesPath srv = url"
    and rt: "dR (eR (held st)) = Inr (held st)"
  shows "DeleteProxyRoute (array_world url eR dR e1 d1) c st srv routeID
    = (Inr (), st\<lparr>held := (case findRouteIndex (held st) routeID 0 of
                              None \<Rightarrow> held st
                            | Some i \<Rightarrow> take i (held st) @ drop (Suc i) (held st))\<rparr>)"
proof -
  let ?w = "array_world url eR dR e1 d1"
  let ?resp = "\<lparr>StatusCode = 200, Body = eR (held st)\<rparr>"
  have b: "NewRequest_error ?w ''GET'' (endpoint c @ routesPath srv) = None"
    by (simp add: array_world_fields)
  have d: "Do ?w st (getRoutesRequest c srv) = (Inr ?resp, st)"
    using u by (simp add: array_world_fields array_Do_get)
  show ?thesis
  proof (cases "findRouteIndex (held st) routeID 0")
    case None
    then have "\<forall>r \<in> set (held st). generateRouteID r \<noteq> routeID"
      by (simp add: findRouteIndex_None)
    with DeleteProxyRoute_no_match [OF b d, of "held st" routeID] rt None
    show ?thesis by (simp add: array_world_fields)
  next
    case (Some i)
    from findRouteIndex_Some [OF Some] have i: "i < length (held st)" by auto
    have "DeleteProxyRoute ?w c st srv routeID =
       (case Do ?w st (deleteIndexRequest c srv i) of
          (Inl err, s2) \<Rightarrow> (Inl (''failed to delete route: '' @ err), s2)
        | (Inr resp2, s2) \<Rightarrow>
            if StatusCode resp2 < 200 \<or> 300 \<le> StatusCode resp2
            then (Inl (statusError resp2), s2) else (Inr (), s2))"
      using rt Some
      by (intro DeleteProxyRoute_match [OF b d, where routes = "held st"])
         (simp_all add: array_world_fields)
    then show ?thesis
      using Some by (simp add: array_world_fields array_Do_delete [OF u i])
  qed
qed

lemma array_Create_rejected:
  assumes u: "endpoint c @ routesPath srv = url" and r: "\<not> accepting st"
  shows "CreateProxyRoute (array_world url eR dR e1 d1) c st srv route
    = (Inl ''caddy API returned status 500: rejected'', st)"
  using array_Do_post_rejected [OF u r]
  by (simp add: CreateProxyRoute_def array_world_fields Let_def statusError_def show_int_500)

lemma remove_first_unique:
  assumes f: "findRouteIndex rs routeID 0 = Some i"
    and one: "length (filter (\<lambda>r. generateRouteID r = routeID) rs) \<le> 1"
  shows "\<forall>r \<in> set (take i rs @ drop (Suc i) rs). generateRouteID r \<noteq> routeID"
proof -
  let ?P = "\<lambda>r. generateRouteID r = routeID"
  from findRouteIndex_Some [OF f] have i: "i < length rs" and p: "?P (rs ! i)" by auto
  have "rs = take i rs @ rs ! i # drop (Suc i) rs"
    using i by (rule id_take_nth_drop)
  then have "filter ?P rs = filter ?P (take i rs @ rs ! i # drop (Suc i) rs)"
    by (rule arg_cong)
  also have "\<dots> = filter ?P (take i rs) @ rs ! i # filter ?P (drop (Suc i) rs)"
    using p by simp
  finally have "filter ?P rs = filter ?P (take i rs) @ rs ! i # filter ?P (drop (Suc i) rs)" .
  with one have "filter ?P (take i rs) = [] \<and> filter ?P (drop (Suc i) rs) = []"
    by simp
  then show ?thesis
    by (auto simp: filter_empty_conv)
qed

subsection \<open>The examples\<close>

lemma endpoint_example: "endpoint (client example_external) = ''http://caddy:2019''"
  by (simp add: example_external_def NewClient_def TrimSuffix_def HasSuffix_def)

lemma serverNameOf_example: "serverNameOf example_desired = ''srv0''" 
  by (simp add: serverNameOf_def example_desired_def)

lemma serverNameOf_created: "serverNameOf example_created = ''srv0''"
  by (simp add: serverNameOf_def example_created_def example_desired_def)

lemma ExternalName_created: "ExternalName example_created = ''host:a.com''"
  by (simp add: example_created_def)

lemma generateRouteID_example_remote: "generateRouteID example_remote = ''host:a.com''"
  by (simp add: example_remote_def generateRouteID_def convertToProxyRoute_def example_desired_def)

lemma generateRouteID_example_route_a: "generateRouteID example_route_a = ''host:a.com,b.com|method:GET''"
  by (simp add: generateRouteID_def example_route_a_def)

lemma example_get_routes_eq:
  "getRoutesRequest (client example_external) ''srv0'' = example_get_routes"
  by (simp add: getRoutesRequest_def example_get_routes_def endpoint_example routesPath_def)

lemma example_delete_1_eq:
  "deleteIndexRequest (client example_external) ''srv0'' (Suc 0) = example_delete_1"
  by (simp add: deleteIndexRequest_def example_delete_1_def endpoint_example routesPath_def
      show_nat.simps)

lemma example_url_eq: "endpoint (client example_external) @ routesPath ''srv0'' = example_url"
  by (simp add: endpoint_example routesPath_def example_url_def)

lemma example_roundtrip_1:
  "example_decode_routes (example_encode_routes
      (held \<lparr>held = [example_route_a, example_remote], accepting = False\<rparr>))
   = Inr (held \<lparr>held = [example_route_a, example_remote], accepting = False\<rparr>)"
  by (simp add: example_decode_routes_def example_encode_routes_def
      generateRouteID_example_remote generateRouteID_example_route_a)

lemma example_roundtrip_2:
  "example_decode_routes (example_encode_routes
      (held \<lparr>held = [example_route_a, example_remote, example_remote], accepting = False\<rparr>))
   = Inr (held \<lparr>held = [example_route_a, example_remote, example_remote],
                accepting = False\<rparr>)"
  by (simp add: example_decode_routes_def example_encode_routes_def
      generateRouteID_example_remote generateRouteID_example_route_a)

lemma example_create_client:
  "CreateProxyRoute (scripted_world (answer_always 201 ''id=route-17'') decode_example)
     (client example_external) () ''srv0'' (convertToProxyRoute example_desired)
   = (Inr ''host:a.com'', ())"
  using generateRouteID_example_remote
  by (simp add: CreateProxyRoute_def scripted_world_def answer_always_def Let_def
      example_remote_def)

lemma example_create:
  "Create (scripted_world (answer_always 201 ''id=route-17'') decode_example) example_external ()
     (ProxyRouteResource example_desired)
   = (Inr (), ProxyRouteResource (example_desired\<lparr>Ready := Some Creating, ExternalName := ''host:a.com''\<rparr>), ())"
  by (simp add: Create_def Let_def convertToProxyRoute_Ready serverNameOf_Ready
      serverNameOf_example example_create_client)

lemma example_get:
  "GetProxyRoute (scripted_world (answer_always 200 ''[R]'') decode_example)
     (client example_external) () ''srv0'' ''host:a.com'' = (Inr example_remote, ())"
  by (simp add: GetProxyRoute_def scripted_world_def answer_always_def decode_example_def
      generateRouteID_example_remote)

section \<open>Properties of Create\<close>

text \<open>
  C2. The identifier that \<open>CreateProxyRoute\<close> returns on success is
  \<open>generateRouteID\<close> of the route it was given, and when \<open>Create\<close> succeeds the
  resource it leaves behind is the given one marked "creating" with its external name set
  to \<open>generateRouteID\<close> of the translated route. Neither right-hand side mentions
  the world, so nothing of the server's response enters the identifier: two successful
  calls of \<open>Create\<close> on the same resource against any two servers leave the same
  resource behind.
\<close>

theorem Create_identifier:
  "(CreateProxyRoute w c s srv route = (Inr rid, s1) \<longrightarrow> rid = generateRouteID route) \<and>
   (Create w e s (ProxyRouteResource cr) = (Inr u, mg', s') \<longrightarrow>
      mg' = ProxyRouteResource
              (cr\<lparr>Ready := Some Creating,
                  ExternalName := generateRouteID (convertToProxyRoute cr)\<rparr>))"
proof (intro conjI impI)
  assume "CreateProxyRoute w c s srv route = (Inr rid, s1)"
  then show "rid = generateRouteID route" by (rule CreateProxyRoute_Inr)
next
  assume a: "Create w e s (ProxyRouteResource cr) = (Inr u, mg', s')"
  obtain res s1 where c: "CreateProxyRoute w (client e) s (serverNameOf cr) (convertToProxyRoute cr) = (res, s1)"
    by (cases "CreateProxyRoute w (client e) s (serverNameOf cr) (convertToProxyRoute cr)")
  show "mg' = ProxyRouteResource (cr\<lparr>Ready := Some Creating, ExternalName := generateRouteID (convertToProxyRoute cr)\<rparr>)"
  proof (cases res)
    case (Inl err)
    with a c show ?thesis
      by (simp add: Create_def Let_def convertToProxyRoute_Ready serverNameOf_Ready)
  next
    case (Inr rid)
    with c have "rid = generateRouteID (convertToProxyRoute cr)"
      by (simp add: CreateProxyRoute_Inr)
    with a c Inr show ?thesis
      by (auto simp: Create_def Let_def convertToProxyRoute_Ready serverNameOf_Ready)
  qed
qed

theorem Create_identifier_witness:
  "fst (CreateProxyRoute (scripted_world (answer_always 201 ''id=route-17'') decode_example)
     (client example_external) () ''srv0'' (convertToProxyRoute example_desired)) = Inr ''host:a.com'' \<and>
   fst (snd (Create (scripted_world (answer_always 201 ''id=route-17'') decode_example) example_external ()
     (ProxyRouteResource example_desired)))
     = ProxyRouteResource (example_desired\<lparr>Ready := Some Creating, ExternalName := ''host:a.com''\<rparr>) \<and>
   generateRouteID (convertToProxyRoute example_desired) = ''host:a.com''"
  using Create_identifier [of
      "scripted_world (answer_always 201 ''id=route-17'') decode_example"
      "client example_external" "()" "''srv0''" "convertToProxyRoute example_desired"
      "''host:a.com''" "()" example_external example_desired "()" 
      "ProxyRouteResource (example_desired\<lparr>Ready := Some Creating, ExternalName := ''host:a.com''\<rparr>)" "()"]
    example_create_client example_create
  by simp

section \<open>Properties of Observe\<close>

text \<open>
  C6. A resource without external name is reported as not existing, without error; the
  resource and the server state come back unchanged and no request is issued, whatever
  the world is.
\<close>

theorem Observe_without_identifier:
  "ExternalName cr = [] \<Longrightarrow>
   Observe w e s (ProxyRouteResource cr)
     = (Inr \<lparr>ResourceExists = False, ResourceUpToDate = False\<rparr>, ProxyRouteResource cr, s) \<and>
   snd (snd (Observe (recording w) e (s, log) (ProxyRouteResource cr))) = (s, log)"
  by (simp add: Observe_def Let_def)

theorem Observe_without_identifier_witness:
  "ExternalName example_desired = [] \<and>
   Observe (scripted_world (answer_always 200 ''[R]'') decode_example) example_external ()
       (ProxyRouteResource example_desired)
     = (Inr \<lparr>ResourceExists = False, ResourceUpToDate = False\<rparr>,
        ProxyRouteResource example_desired, ()) \<and>
   snd (snd (Observe (recording (scripted_world (answer_always 200 ''[R]'') decode_example))
       example_external ((), []) (ProxyRouteResource example_desired))) = ((), [])"
proof -
  have h: "ExternalName example_desired = []"
    by (simp add: example_desired_def)
  from Observe_without_identifier [OF h] h show ?thesis
    by simp
qed

text \<open>
  C9. When the resource has an external name and \<open>GetProxyRoute\<close> finds the route,
  \<open>Observe\<close> reports that the resource exists and is not up to date, whatever the
  desired state and the fetched route are, and marks the resource available; the external
  name and the desired state stay as they were, and the identifier is echoed into the
  observed status.
\<close>

theorem Observe_existing_never_up_to_date:
  "ExternalName cr \<noteq> [] \<Longrightarrow>
   GetProxyRoute w (client e) s (serverNameOf cr) (ExternalName cr) = (Inr route, s1) \<Longrightarrow>
   \<exists>cr' s2. Observe w e s (ProxyRouteResource cr)
       = (Inr \<lparr>ResourceExists = True, ResourceUpToDate = False\<rparr>, ProxyRouteResource cr', s2) \<and>
     Ready cr' = Some Available \<and>
     RouteID (AtProvider cr') = ExternalName cr \<and>
     ExternalName cr' = ExternalName cr \<and>
     ForProvider cr' = ForProvider cr"
proof -
  assume n: "ExternalName cr \<noteq> []"
    and g: "GetProxyRoute w (client e) s (serverNameOf cr) (ExternalName cr) = (Inr route, s1)"
  obtain res s2 where u: "GetUpstreamStatus w (client e) s1 = (res, s2)"
    by (cases "GetUpstreamStatus w (client e) s1")
  show ?thesis
  proof (cases res)
    case (Inl err)
    with n g u show ?thesis
      by (simp add: Observe_def Let_def isUpToDate_def)
  next
    case (Inr upstreams)
    with n g u show ?thesis
      by (simp add: Observe_def Let_def isUpToDate_def)
  qed
qed

theorem Observe_existing_never_up_to_date_witness:
  "fst (Observe (scripted_world (answer_always 200 ''[R]'') decode_example) example_external ()
     (ProxyRouteResource example_created))
   = Inr \<lparr>ResourceExists = True, ResourceUpToDate = False\<rparr>"
proof -
  have n: "ExternalName example_created \<noteq> []"
    by (simp add: example_created_def)
  have g: "GetProxyRoute (scripted_world (answer_always 200 ''[R]'') decode_example)
      (client example_external) () (serverNameOf example_created) (ExternalName example_created)
      = (Inr example_remote, ())"
    using example_get by (simp add: example_created_def serverNameOf_def example_desired_def)
  from Observe_existing_never_up_to_date [OF n g] show ?thesis
    by auto
qed

text \<open>
  C10. \<open>Observe\<close> classifies by substring: whenever the message of the error from
  \<open>GetProxyRoute\<close> has "not found" anywhere in it, \<open>Observe\<close> reports that the
  resource does not exist, without error. This includes the error built from a response
  with a status outside 200..299 (other than 404) whose body contains "not found": the
  client puts the body into the message, and \<open>Observe\<close> then reports non-existence
  instead of failing. Errors are plain messages; there is no separate kind for "not
  found".
\<close>

theorem Observe_not_found_by_substring:
  "(ExternalName cr \<noteq> [] \<and>
    GetProxyRoute w (client e) s (serverNameOf cr) (ExternalName cr)
      = (Inl (p @ ''not found'' @ q), s1) \<longrightarrow>
    Observe w e s (ProxyRouteResource cr)
      = (Inr \<lparr>ResourceExists = False, ResourceUpToDate = False\<rparr>, ProxyRouteResource cr, s1)) \<and>
   (ExternalName cr \<noteq> [] \<and>
    NewRequest_error w ''GET'' (endpoint (client e) @ routesPath (serverNameOf cr)) = None \<and>
    Do w s (getRoutesRequest (client e) (serverNameOf cr)) = (Inr resp, s1) \<and>
    StatusCode resp \<noteq> 404 \<and> (StatusCode resp < 200 \<or> 300 \<le> StatusCode resp) \<and>
    Body resp = p' @ ''not found'' @ q' \<longrightarrow>
    GetProxyRoute w (client e) s (serverNameOf cr) (ExternalName cr)
      = (Inl (statusError resp), s1) \<and>
    Observe w e s (ProxyRouteResource cr)
      = (Inr \<lparr>ResourceExists = False, ResourceUpToDate = False\<rparr>, ProxyRouteResource cr, s1))"
proof (rule conjI; rule impI)
  assume a: "ExternalName cr \<noteq> [] \<and>
    GetProxyRoute w (client e) s (serverNameOf cr) (ExternalName cr)
      = (Inl (p @ ''not found'' @ q), s1)"
  have "Contains (p @ ''not found'' @ q) ''not found''"
    unfolding Contains_iff by blast
  with a show "Observe w e s (ProxyRouteResource cr)
      = (Inr \<lparr>ResourceExists = False, ResourceUpToDate = False\<rparr>, ProxyRouteResource cr, s1)"
    by (simp add: Observe_def Let_def)
next
  assume a: "ExternalName cr \<noteq> [] \<and>
    NewRequest_error w ''GET'' (endpoint (client e) @ routesPath (serverNameOf cr)) = None \<and>
    Do w s (getRoutesRequest (client e) (serverNameOf cr)) = (Inr resp, s1) \<and>
    StatusCode resp \<noteq> 404 \<and> (StatusCode resp < 200 \<or> 300 \<le> StatusCode resp) \<and>
    Body resp = p' @ ''not found'' @ q'"
  then have g: "GetProxyRoute w (client e) s (serverNameOf cr) (ExternalName cr)
      = (Inl (statusError resp), s1)"
    by (intro GetProxyRoute_status_error) auto
  have "statusError resp =
      (''caddy API returned status '' @ show_int (StatusCode resp) @ '': '' @ p')
        @ ''not found'' @ q'"
    using a by (simp add: statusError_def)
  then have "Contains (statusError resp) ''not found''"
    unfolding Contains_iff by blast
  with a g show "GetProxyRoute w (client e) s (serverNameOf cr) (ExternalName cr)
      = (Inl (statusError resp), s1) \<and>
    Observe w e s (ProxyRouteResource cr)
      = (Inr \<lparr>ResourceExists = False, ResourceUpToDate = False\<rparr>, ProxyRouteResource cr, s1)"
    by (simp add: Observe_def Let_def)
qed

theorem Observe_not_found_by_substring_witness:
  "GetProxyRoute (scripted_world (answer_always 503 ''backend not found'') decode_example)
      (client example_external) () ''srv0'' ''host:a.com''
     = (Inl ''caddy API returned status 503: backend not found'', ()) \<and>
   Observe (scripted_world (answer_always 503 ''backend not found'') decode_example)
      example_external () (ProxyRouteResource example_created)
     = (Inr \<lparr>ResourceExists = False, ResourceUpToDate = False\<rparr>,
        ProxyRouteResource example_created, ())"
proof -
  let ?w = "scripted_world (answer_always 503 ''backend not found'') decode_example"
  let ?resp = "\<lparr>StatusCode = 503, Body = ''backend not found''\<rparr>"
  have n: "ExternalName example_created \<noteq> []"
    by (simp add: ExternalName_created)
  have r: "NewRequest_error ?w ''GET''
      (endpoint (client example_external) @ routesPath (serverNameOf example_created)) = None"
    by (simp add: scripted_world_def)
  have d: "Do ?w () (getRoutesRequest (client example_external) (serverNameOf example_created))
      = (Inr ?resp, ())"
    by (simp add: scripted_world_def answer_always_def)
  have st: "StatusCode ?resp \<noteq> 404 \<and> (StatusCode ?resp < 200 \<or> 300 \<le> StatusCode ?resp)"
    by simp
  have b: "Body ?resp = ''backend '' @ ''not found'' @ []"
    by simp
  have e: "statusError ?resp = ''caddy API returned status 503: backend not found''"
    by (simp add: statusError_def show_int_503)
  have g: "GetProxyRoute ?w (client example_external) () (serverNameOf example_created)
      (ExternalName example_created) = (Inl (''caddy API returned status 503: backend '' @ ''not found'' @ []), ())"
    using GetProxyRoute_status_error [OF r d] e by simp
  from Observe_not_found_by_substring [where cr = example_created and w = ?w
      and e = example_external and s = "()" and ?s1.0 = "()" and resp = ?resp
      and p = "''caddy API returned status 503: backend ''" and q = "[]"
      and p' = "''backend ''" and q' = "[]"]
    n r d st b e g
  show ?thesis
    by (simp add: serverNameOf_created ExternalName_created)
qed

text \<open>
  C5, at an input where the code departs from it. The resource has the external name
  "host:a.com" and the server answers the GET of the route array with status 500 and the
  body "upstream not found". \<open>GetProxyRoute\<close> returns the backend error
  "caddy API returned status 500: upstream not found", which is not a "route not found"
  outcome; \<open>Observe\<close> nevertheless reports that the resource does not exist, without
  error, where the claim has it fail with the error wrapped as "cannot get proxy route".
\<close>

theorem Observe_swallows_backend_error:
  "GetProxyRoute (scripted_world (answer_always 500 ''upstream not found'') decode_example)
      (client example_external) () ''srv0'' ''host:a.com''
     = (Inl ''caddy API returned status 500: upstream not found'', ()) \<and>
   Observe (scripted_world (answer_always 500 ''upstream not found'') decode_example)
      example_external () (ProxyRouteResource example_created)
     = (Inr \<lparr>ResourceExists = False, ResourceUpToDate = False\<rparr>,
        ProxyRouteResource example_created, ())"
proof -
  let ?w = "scripted_world (answer_always 500 ''upstream not found'') decode_example"
  have g: "GetProxyRoute ?w (client example_external) () ''srv0'' ''host:a.com''
     = (Inl ''caddy API returned status 500: upstream not found'', ())"
    by (simp add: GetProxyRoute_def scripted_world_def answer_always_def statusError_def
        show_int_500)
  then have "Observe ?w example_external () (ProxyRouteResource example_created)
     = (Inr \<lparr>ResourceExists = False, ResourceUpToDate = False\<rparr>,
        ProxyRouteResource example_created, ())"
    by (simp add: Observe_def Let_def serverNameOf_created ExternalName_created)
  with g show ?thesis by simp
qed

section \<open>Properties of DeleteProxyRoute\<close>

text \<open>
  C4. Once the GET of the route array has been built and answered: on status 404 the
  deletion succeeds with that single request; on a 2xx answer that decodes to an array
  without an entry whose identifier is \<open>routeID\<close> it succeeds with that single
  request as well; and when \<open>i\<close> is the index of the first entry whose identifier is
  \<open>routeID\<close> (and the DELETE request can be built), exactly one further request is
  issued, the DELETE keyed by \<open>i\<close>, and its outcome is the outcome of the deletion.
\<close>

theorem DeleteProxyRoute_outcomes:
  assumes get_built: "NewRequest_error w ''GET'' (endpoint c @ routesPath srv) = None"
    and get_answered: "Do w s (getRoutesRequest c srv) = (Inr resp, s1)"
  shows
  "(StatusCode resp = 404 \<longrightarrow>
    DeleteProxyRoute w c s srv routeID = (Inr (), s1) \<and>
    DeleteProxyRoute (recording w) c (s, log) srv routeID
      = (Inr (), (s1, log @ [getRoutesRequest c srv]))) \<and>
   (200 \<le> StatusCode resp \<and> StatusCode resp < 300 \<and>
    DecodeRoutes w (Body resp) = Inr routes \<and>
    (\<forall>r \<in> set routes. generateRouteID r \<noteq> routeID) \<longrightarrow>
    DeleteProxyRoute w c s srv routeID = (Inr (), s1) \<and>
    DeleteProxyRoute (recording w) c (s, log) srv routeID
      = (Inr (), (s1, log @ [getRoutesRequest c srv]))) \<and>
   (200 \<le> StatusCode resp \<and> StatusCode resp < 300 \<and>
    DecodeRoutes w (Body resp) = Inr routes \<and>
    i < length routes \<and> generateRouteID (routes ! i) = routeID \<and>
    (\<forall>j < i. generateRouteID (routes ! j) \<noteq> routeID) \<and>
    NewRequest_error w ''DELETE'' (endpoint c @ routesPath srv @ ''/'' @ show_nat i) = None \<longrightarrow>
    snd (DeleteProxyRoute (recording w) c (s, log) srv routeID)
      = (snd (Do w s1 (deleteIndexRequest c srv i)),
         log @ [getRoutesRequest c srv, deleteIndexRequest c srv i]) \<and>
    fst (DeleteProxyRoute w c s srv routeID)
      = (case fst (Do w s1 (deleteIndexRequest c srv i)) of
           Inl err \<Rightarrow> Inl (''failed to delete route: '' @ err)
         | Inr resp2 \<Rightarrow>
             if StatusCode resp2 < 200 \<or> 300 \<le> StatusCode resp2
             then Inl (statusError resp2) else Inr ()))"
proof -
  have rec_built: "NewRequest_error (recording w) ''GET'' (endpoint c @ routesPath srv) = None"
    using get_built by (simp add: recording_fields)
  have rec_answered: "Do (recording w) (s, log) (getRoutesRequest c srv)
      = (Inr resp, (s1, log @ [getRoutesRequest c srv]))"
    using get_answered by (rule Do_recording)
  have missing: "DeleteProxyRoute w c s srv routeID = (Inr (), s1) \<and>
      DeleteProxyRoute (recording w) c (s, log) srv routeID
        = (Inr (), (s1, log @ [getRoutesRequest c srv]))"
    if "StatusCode resp = 404"
    using DeleteProxyRoute_404 [OF get_built get_answered that]
      DeleteProxyRoute_404 [OF rec_built rec_answered that] by simp
  have unmatched: "DeleteProxyRoute w c s srv routeID = (Inr (), s1) \<and>
      DeleteProxyRoute (recording w) c (s, log) srv routeID
        = (Inr (), (s1, log @ [getRoutesRequest c srv]))"
    if "200 \<le> StatusCode resp \<and> StatusCode resp < 300 \<and>
        DecodeRoutes w (Body resp) = Inr routes \<and>
        (\<forall>r \<in> set routes. generateRouteID r \<noteq> routeID)"
    using that DeleteProxyRoute_no_match [OF get_built get_answered, of routes routeID]
      DeleteProxyRoute_no_match [OF rec_built rec_answered, of routes routeID]
    by (simp add: recording_fields)
  have matched: "snd (DeleteProxyRoute (recording w) c (s, log) srv routeID)
      = (snd (Do w s1 (deleteIndexRequest c srv i)),
         log @ [getRoutesRequest c srv, deleteIndexRequest c srv i]) \<and>
    fst (DeleteProxyRoute w c s srv routeID)
      = (case fst (Do w s1 (deleteIndexRequest c srv i)) of
           Inl err \<Rightarrow> Inl (''failed to delete route: '' @ err)
         | Inr resp2 \<Rightarrow>
             if StatusCode resp2 < 200 \<or> 300 \<le> StatusCode resp2
             then Inl (statusError resp2) else Inr ())"
    if a: "200 \<le> StatusCode resp \<and> StatusCode resp < 300 \<and>
      DecodeRoutes w (Body resp) = Inr routes \<and>
      i < length routes \<and> generateRouteID (routes ! i) = routeID \<and>
      (\<forall>j < i. generateRouteID (routes ! j) \<noteq> routeID) \<and>
      NewRequest_error w ''DELETE'' (endpoint c @ routesPath srv @ ''/'' @ show_nat i) = None"
  proof -
    from a have f: "findRouteIndex routes routeID 0 = Some i"
      using findRouteIndex_first [of i routes routeID 0] by simp
    obtain r2 s2 where d: "Do w s1 (deleteIndexRequest c srv i) = (r2, s2)"
      by (cases "Do w s1 (deleteIndexRequest c srv i)")
    from a f have plain: "DeleteProxyRoute w c s srv routeID =
       (case Do w s1 (deleteIndexRequest c srv i) of
          (Inl err, s2) \<Rightarrow> (Inl (''failed to delete route: '' @ err), s2)
        | (Inr resp2, s2) \<Rightarrow>
            if StatusCode resp2 < 200 \<or> 300 \<le> StatusCode resp2
            then (Inl (statusError resp2), s2) else (Inr (), s2))"
      by (intro DeleteProxyRoute_match [OF get_built get_answered, where routes = routes]) auto
    from a f have rec: "DeleteProxyRoute (recording w) c (s, log) srv routeID =
       (case Do (recording w) (s1, log @ [getRoutesRequest c srv]) (deleteIndexRequest c srv i) of
          (Inl err, s2) \<Rightarrow> (Inl (''failed to delete route: '' @ err), s2)
        | (Inr resp2, s2) \<Rightarrow>
            if StatusCode resp2 < 200 \<or> 300 \<le> StatusCode resp2
            then (Inl (statusError resp2), s2) else (Inr (), s2))"
      by (intro DeleteProxyRoute_match [OF rec_built rec_answered, where routes = routes])
         (auto simp: recording_fields)
    have "snd (DeleteProxyRoute (recording w) c (s, log) srv routeID)
        = (s2, log @ [getRoutesRequest c srv, deleteIndexRequest c srv i])"
      using rec Do_recording [OF d, of "log @ [getRoutesRequest c srv]"]
      by (cases r2) auto
    moreover have "fst (DeleteProxyRoute w c s srv routeID)
      = (case r2 of
           Inl err \<Rightarrow> Inl (''failed to delete route: '' @ err)
         | Inr resp2 \<Rightarrow>
             if StatusCode resp2 < 200 \<or> 300 \<le> StatusCode resp2
             then Inl (statusError resp2) else Inr ())"
      using plain d by (cases r2) auto
    ultimately show ?thesis
      using d by simp
  qed
  from missing unmatched matched show ?thesis
    by blast
qed

theorem DeleteProxyRoute_outcomes_witness:
  "DeleteProxyRoute (recording (scripted_world (answer_always 404 []) decode_example))
      (client example_external) ((), []) ''srv0'' ''host:a.com''
     = (Inr (), ((), [example_get_routes])) \<and>
   DeleteProxyRoute (recording (scripted_world (answer_always 200 ''[]'') decode_example))
      (client example_external) ((), []) ''srv0'' ''host:a.com''
     = (Inr (), ((), [example_get_routes])) \<and>
   snd (DeleteProxyRoute (recording (scripted_world (answer_always 200 ''[A,R,R]'') decode_example))
      (client example_external) ((), []) ''srv0'' ''host:a.com'')
     = ((), [example_get_routes, example_delete_1]) \<and>
   fst (DeleteProxyRoute (scripted_world (answer_always 200 ''[A,R,R]'') decode_example)
      (client example_external) () ''srv0'' ''host:a.com'') = Inr ()"
proof -
  let ?c = "client example_external"
  let ?w1 = "scripted_world (answer_always 404 []) decode_example"
  let ?w2 = "scripted_world (answer_always 200 ''[]'') decode_example"
  let ?w3 = "scripted_world (answer_always 200 ''[A,R,R]'') decode_example"
  let ?routes = "[example_route_a, example_remote, example_remote]"
  have b1: "NewRequest_error ?w1 ''GET'' (endpoint ?c @ routesPath ''srv0'') = None"
    and b2: "NewRequest_error ?w2 ''GET'' (endpoint ?c @ routesPath ''srv0'') = None"
    and b3: "NewRequest_error ?w3 ''GET'' (endpoint ?c @ routesPath ''srv0'') = None"
    by (simp_all add: scripted_world_def)
  have d1: "Do ?w1 () (getRoutesRequest ?c ''srv0'') = (Inr \<lparr>StatusCode = 404, Body = []\<rparr>, ())"
    and d2: "Do ?w2 () (getRoutesRequest ?c ''srv0'') = (Inr \<lparr>StatusCode = 200, Body = ''[]''\<rparr>, ())"
    and d3: "Do ?w3 () (getRoutesRequest ?c ''srv0'')
        = (Inr \<lparr>StatusCode = 200, Body = ''[A,R,R]''\<rparr>, ())"
    by (simp_all add: scripted_world_def answer_always_def)
  have p1: "DeleteProxyRoute (recording ?w1) ?c ((), []) ''srv0'' ''host:a.com''
      = (Inr (), ((), [example_get_routes]))"
    using DeleteProxyRoute_outcomes [OF b1 d1, of "''host:a.com''" "[]"]
    by (simp add: example_get_routes_eq)
  have p2: "DeleteProxyRoute (recording ?w2) ?c ((), []) ''srv0'' ''host:a.com''
      = (Inr (), ((), [example_get_routes]))"
    using DeleteProxyRoute_outcomes [OF b2 d2, of "''host:a.com''" "[]" "[]"]
    by (simp add: example_get_routes_eq scripted_world_def decode_example_def)
  have h3: "200 \<le> StatusCode \<lparr>StatusCode = 200, Body = ''[A,R,R]''\<rparr> \<and>
      StatusCode \<lparr>StatusCode = 200, Body = ''[A,R,R]''\<rparr> < 300 \<and>
      DecodeRoutes ?w3 (Body \<lparr>StatusCode = 200, Body = ''[A,R,R]''\<rparr>) = Inr ?routes \<and>
      1 < length ?routes \<and> generateRouteID (?routes ! 1) = ''host:a.com'' \<and>
      (\<forall>j < 1. generateRouteID (?routes ! j) \<noteq> ''host:a.com'') \<and>
      NewRequest_error ?w3 ''DELETE'' (endpoint ?c @ routesPath ''srv0'' @ ''/'' @ show_nat 1) = None"
    by (simp add: scripted_world_def decode_example_def generateRouteID_example_remote
        generateRouteID_example_route_a)
  have dd: "Do ?w3 () (deleteIndexRequest ?c ''srv0'' 1)
      = (Inr \<lparr>StatusCode = 200, Body = ''[A,R,R]''\<rparr>, ())"
    by (simp add: scripted_world_def answer_always_def)
  have p3: "snd (DeleteProxyRoute (recording ?w3) ?c ((), []) ''srv0'' ''host:a.com'')
      = ((), [example_get_routes, example_delete_1]) \<and>
      fst (DeleteProxyRoute ?w3 ?c () ''srv0'' ''host:a.com'') = Inr ()"
    using DeleteProxyRoute_outcomes [OF b3 d3, of "''host:a.com''" "[]" ?routes 1] h3 dd
    by (simp add: example_get_routes_eq example_delete_1_eq)
  from p1 p2 p3 show ?thesis by simp
qed

section \<open>Properties of UpdateProxyRoute\<close>

text \<open>
  C3, as stated, fails: after a successful delete step and a failed create step the
  backend can still hold the old route. The reference server holds two entries with the
  identifier "host:a.com" (creating twice appends twice) after an entry with another
  identifier; the delete step removes the first of the two only, the server rejects the POST, the update returns an error, and the
  server still holds an entry with the identifier "host:a.com".
\<close>

theorem UpdateProxyRoute_route_absent_counterexample:
  "DeleteProxyRoute example_array_world (client example_external)
      \<lparr>held = [example_route_a, example_remote, example_remote], accepting = False\<rparr>
      ''srv0'' ''host:a.com''
     = (Inr (), \<lparr>held = [example_route_a, example_remote], accepting = False\<rparr>) \<and>
   CreateProxyRoute example_array_world (client example_external)
      \<lparr>held = [example_route_a, example_remote], accepting = False\<rparr> ''srv0''
      (convertToProxyRoute example_desired_tls)
     = (Inl ''caddy API returned status 500: rejected'',
        \<lparr>held = [example_route_a, example_remote], accepting = False\<rparr>) \<and>
   UpdateProxyRoute example_array_world (client example_external)
      \<lparr>held = [example_route_a, example_remote, example_remote], accepting = False\<rparr>
      ''srv0'' ''host:a.com'' (convertToProxyRoute example_desired_tls)
     = (Inl ''failed to create updated route: caddy API returned status 500: rejected'',
        \<lparr>held = [example_route_a, example_remote], accepting = False\<rparr>) \<and>
   generateRouteID example_remote = ''host:a.com''"
proof -
  let ?c = "client example_external"
  let ?st = "\<lparr>held = [example_route_a, example_remote, example_remote], accepting = False\<rparr>"
  let ?st1 = "\<lparr>held = [example_route_a, example_remote], accepting = False\<rparr>"
  have del: "DeleteProxyRoute example_array_world ?c ?st ''srv0'' ''host:a.com'' = (Inr (), ?st1)"
    unfolding example_array_world_def
    by (subst array_Delete [where dR = example_decode_routes and eR = example_encode_routes,
          OF example_url_eq example_roundtrip_2])
       (simp add: generateRouteID_example_remote generateRouteID_example_route_a)
  have na: "\<not> accepting ?st1" by simp
  have cre: "CreateProxyRoute example_array_world ?c ?st1 ''srv0''
      (convertToProxyRoute example_desired_tls)
     = (Inl ''caddy API returned status 500: rejected'', ?st1)"
    unfolding example_array_world_def
    by (rule array_Create_rejected [OF example_url_eq na])
  have upd: "UpdateProxyRoute example_array_world ?c ?st ''srv0'' ''host:a.com''
      (convertToProxyRoute example_desired_tls)
     = (Inl ''failed to create updated route: caddy API returned status 500: rejected'', ?st1)"
    by (simp add: UpdateProxyRoute_def del cre)
  from del cre upd generateRouteID_example_remote show ?thesis
    by (intro conjI)
qed

text \<open>
  C3, amended. \<open>UpdateProxyRoute\<close> is the deletion of the old identifier followed, when
  that succeeds, by the creation of the new route from the state the deletion left; an
  error of either step is returned with the prefix "failed to delete old route" or "failed
  to create updated route", and nothing is undone. On the reference server, when the POST
  is rejected after a successful delete step, the update returns an error and the array is
  the previous one without the first entry that carried the old identifier, with nothing
  appended; if at most one entry carried the old identifier, no entry carries it
  afterwards.
\<close>

theorem UpdateProxyRoute_delete_then_create:
  "UpdateProxyRoute w c s srv routeID route =
     (case DeleteProxyRoute w c s srv routeID of
        (Inl err, s1) \<Rightarrow> (Inl (''failed to delete old route: '' @ err), s1)
      | (Inr u, s1) \<Rightarrow>
          (case CreateProxyRoute w c s1 srv route of
             (Inl err, s2) \<Rightarrow> (Inl (''failed to create updated route: '' @ err), s2)
           | (Inr newID, s2) \<Rightarrow> (Inr (), s2))) \<and>
   (endpoint c @ routesPath srv = url \<and>
    decodeRoutes (encodeRoutes (held st)) = Inr (held st) \<and>
    \<not> accepting st \<longrightarrow>
    (\<exists>st'. UpdateProxyRoute (array_world url encodeRoutes decodeRoutes encodeRoute decodeRoute)
              c st srv routeID route
            = (Inl ''failed to create updated route: caddy API returned status 500: rejected'', st') \<and>
           held st' = (case findRouteIndex (held st) routeID 0 of
                         None \<Rightarrow> held st
                       | Some i \<Rightarrow> take i (held st) @ drop (Suc i) (held st)) \<and>
           (length (filter (\<lambda>r. generateRouteID r = routeID) (held st)) \<le> 1 \<longrightarrow>
            (\<forall>r \<in> set (held st'). generateRouteID r \<noteq> routeID))))"
proof (rule conjI)
  show "UpdateProxyRoute w c s srv routeID route =
     (case DeleteProxyRoute w c s srv routeID of
        (Inl err, s1) \<Rightarrow> (Inl (''failed to delete old route: '' @ err), s1)
      | (Inr u, s1) \<Rightarrow>
          (case CreateProxyRoute w c s1 srv route of
             (Inl err, s2) \<Rightarrow> (Inl (''failed to create updated route: '' @ err), s2)
           | (Inr newID, s2) \<Rightarrow> (Inr (), s2)))"
    by (simp add: UpdateProxyRoute_def split: prod.splits sum.splits)
next
  let ?w = "array_world url encodeRoutes decodeRoutes encodeRoute decodeRoute"
  let ?rest = "case findRouteIndex (held st) routeID 0 of
                 None \<Rightarrow> held st
               | Some i \<Rightarrow> take i (held st) @ drop (Suc i) (held st)"
  show "endpoint c @ routesPath srv = url \<and>
    decodeRoutes (encodeRoutes (held st)) = Inr (held st) \<and>
    \<not> accepting st \<longrightarrow>
    (\<exists>st'. UpdateProxyRoute ?w c st srv routeID route
            = (Inl ''failed to create updated route: caddy API returned status 500: rejected'', st') \<and>
           held st' = ?rest \<and>
           (length (filter (\<lambda>r. generateRouteID r = routeID) (held st)) \<le> 1 \<longrightarrow>
            (\<forall>r \<in> set (held st'). generateRouteID r \<noteq> routeID)))"
  proof
    assume a: "endpoint c @ routesPath srv = url \<and>
      decodeRoutes (encodeRoutes (held st)) = Inr (held st) \<and> \<not> accepting st"
    let ?st' = "st\<lparr>held := ?rest\<rparr>"
    from a have u: "endpoint c @ routesPath srv = url"
      and rt: "decodeRoutes (encodeRoutes (held st)) = Inr (held st)"
      and na: "\<not> accepting ?st'"
      by simp_all
    have del: "DeleteProxyRoute ?w c st srv routeID = (Inr (), ?st')"
      by (rule array_Delete [where dR = decodeRoutes and eR = encodeRoutes, OF u rt])
    have cre: "CreateProxyRoute ?w c ?st' srv route
        = (Inl ''caddy API returned status 500: rejected'', ?st')"
      by (rule array_Create_rejected [OF u na])
    have upd: "UpdateProxyRoute ?w c st srv routeID route
        = (Inl ''failed to create updated route: caddy API returned status 500: rejected'', ?st')"
      by (simp add: UpdateProxyRoute_def del cre)
    have gone: "\<forall>r \<in> set (held ?st'). generateRouteID r \<noteq> routeID"
      if one: "length (filter (\<lambda>r. generateRouteID r = routeID) (held st)) \<le> 1"
    proof (cases "findRouteIndex (held st) routeID 0")
      case None
      then have "\<forall>r \<in> set (held st). generateRouteID r \<noteq> routeID"
        by (simp add: findRouteIndex_None)
      with None show ?thesis by simp
    next
      case (Some i)
      with remove_first_unique [OF Some one] show ?thesis by simp
    qed
    have kept: "held ?st' = ?rest"
      by simp
    show "\<exists>st'. UpdateProxyRoute ?w c st srv routeID route
            = (Inl ''failed to create updated route: caddy API returned status 500: rejected'', st') \<and>
           held st' = ?rest \<and>
           (length (filter (\<lambda>r. generateRouteID r = routeID) (held st)) \<le> 1 \<longrightarrow>
            (\<forall>r \<in> set (held st'). generateRouteID r \<noteq> routeID))"
    proof (intro exI conjI impI)
      show "UpdateProxyRoute ?w c st srv routeID route
          = (Inl ''failed to create updated route: caddy API returned status 500: rejected'', ?st')"
        by (rule upd)
      show "held ?st' = ?rest"
        by (rule kept)
      show "\<forall>r \<in> set (held ?st'). generateRouteID r \<noteq> routeID"
        if "length (filter (\<lambda>r. generateRouteID r = routeID) (held st)) \<le> 1"
        using that by (rule gone)
    qed
  qed
qed

theorem UpdateProxyRoute_delete_then_create_witness:
  "fst (UpdateProxyRoute example_array_world (client example_external)
      \<lparr>held = [example_route_a, example_remote], accepting = False\<rparr> ''srv0'' ''host:a.com''
      (convertToProxyRoute example_desired_tls))
     = Inl ''failed to create updated route: caddy API returned status 500: rejected'' \<and>
   held (snd (UpdateProxyRoute example_array_world (client example_external)
      \<lparr>held = [example_route_a, example_remote], accepting = False\<rparr> ''srv0'' ''host:a.com''
      (convertToProxyRoute example_desired_tls))) = [example_route_a] \<and>
   generateRouteID example_route_a = ''host:a.com,b.com|method:GET''"
proof -
  let ?c = "client example_external"
  let ?st = "\<lparr>held = [example_route_a, example_remote], accepting = False\<rparr>"
  let ?old = "\<lambda>r. generateRouteID r = ''host:a.com''"
  have na: "\<not> accepting ?st" by simp
  note inst = UpdateProxyRoute_delete_then_create [where c = ?c and srv = "''srv0''"
      and url = example_url and decodeRoutes = example_decode_routes
      and encodeRoutes = example_encode_routes and st = ?st and routeID = "''host:a.com''"
      and route = "convertToProxyRoute example_desired_tls"
      and encodeRoute = "\<lambda>r. example_encode_routes [r]"
      and decodeRoute = "\<lambda>b. if b = ''R'' then Some example_remote
            else if b = ''A'' then Some example_route_a else None"
      and w = example_array_world and s = ?st]
  from inst [THEN conjunct2, THEN mp, OF conjI [OF example_url_eq conjI [OF example_roundtrip_1 na]]]
  obtain st' where
    u: "UpdateProxyRoute example_array_world ?c ?st ''srv0'' ''host:a.com''
          (convertToProxyRoute example_desired_tls)
        = (Inl ''failed to create updated route: caddy API returned status 500: rejected'', st')"
    and h: "held st' = (case findRouteIndex (held ?st) ''host:a.com'' 0 of
                         None \<Rightarrow> held ?st
                       | Some i \<Rightarrow> take i (held ?st) @ drop (Suc i) (held ?st))"
    and g: "length (filter ?old (held ?st)) \<le> 1 \<longrightarrow>
            (\<forall>r \<in> set (held st'). generateRouteID r \<noteq> ''host:a.com'')"
    unfolding example_array_world_def by blast
  have "length (filter ?old (held ?st)) \<le> 1"
    by (simp add: generateRouteID_example_remote generateRouteID_example_route_a)
  with g have none: "\<forall>r \<in> set (held st'). generateRouteID r \<noteq> ''host:a.com''"
    by blast
  from h have "held st' = [example_route_a]"
    by (simp add: generateRouteID_example_remote generateRouteID_example_route_a)
  with u none show ?thesis
    by (simp add: generateRouteID_example_route_a)
qed

end
